theory Spec2Isabelle
  imports Main
begin

section \<open>JavaScript values used by the storage layer\<close>

text \<open>
  A property of an insert object may be missing (\<open>undefined\<close>), \<open>null\<close> or a value.
  Handles and counters are JavaScript numbers holding integers; they are modelled as
  \<open>int\<close>, which is exact for every counter value below \<open>2 ^ 53\<close>.
  A \<open>Date\<close> is its number of milliseconds since the epoch.
\<close>

datatype 'a optional = Undefined | Null | Val 'a

text \<open>
  A field of a stored board holds a value of its type or, after a merge with a key bound to
  \<open>undefined\<close>, the value \<open>undefined\<close>.
\<close>

datatype 'a or_undefined = Undef | Def 'a

type_synonym Date = int

text \<open>
  The operator \<open>x || d\<close> yields \<open>d\<close> when \<open>x\<close> is falsy: \<open>undefined\<close>, \<open>null\<close>,
  the empty string or the number \<open>0\<close>. A \<open>Date\<close> object is never falsy.
\<close>

definition string_or_null :: "string optional \<Rightarrow> string option" where
  "string_or_null x = (case x of Val v \<Rightarrow> (if v = [] then None else Some v) | _ \<Rightarrow> None)"

definition string_or :: "string optional \<Rightarrow> string \<Rightarrow> string" where
  "string_or x d = (case x of Val v \<Rightarrow> (if v = [] then d else v) | _ \<Rightarrow> d)"

definition number_or_null :: "int optional \<Rightarrow> int option" where
  "number_or_null x = (case x of Val v \<Rightarrow> (if v = 0 then None else Some v) | _ \<Rightarrow> None)"

definition date_or_null :: "Date optional \<Rightarrow> Date option" where
  "date_or_null x = (case x of Val v \<Rightarrow> Some v | _ \<Rightarrow> None)"

text \<open>
  A key of a \<open>Partial\<close> object is either missing (\<open>None\<close>) or present with what it is
  bound to; \<open>pick\<close> is what the spread \<open>{...old, ...updates}\<close> leaves in one field: a
  present key overwrites, also when it is bound to \<open>undefined\<close>. For a \<open>Partial<Board>\<close>
  a present key is bound to a value of the field's type or to \<open>undefined\<close>, which is what
  the board route builds from a request body that lacks a field. For a \<open>Partial<Todo>\<close> the
  model covers the objects whose present keys are bound to values of the field's type.
\<close>

definition pick :: "'a option \<Rightarrow> 'a \<Rightarrow> 'a" where
  "pick u old = (case u of None \<Rightarrow> old | Some v \<Rightarrow> v)"

section \<open>The JavaScript Map\<close>

text \<open>
  A \<open>Map<number, V>\<close> keeps its entries in insertion order: an association list.
  \<open>set\<close> on a key already present replaces the value in place, on a new key it
  appends; \<open>delete\<close> removes the entry and reports whether the key was there
  (\<open>Map_has\<close>). A Map has one entry per key; the lists of every reachable store have
  (\<open>store_inv\<close> below), and the properties that need it are stated for reachable stores.
\<close>

type_synonym 'v Map = "(int \<times> 'v) list"

definition Map_has :: "'v Map \<Rightarrow> int \<Rightarrow> bool" where
  "Map_has m k = (k \<in> set (map fst m))"

definition Map_get :: "'v Map \<Rightarrow> int \<Rightarrow> 'v option" where
  "Map_get m k = map_of m k"

fun Map_set :: "'v Map \<Rightarrow> int \<Rightarrow> 'v \<Rightarrow> 'v Map" where
  "Map_set [] k v = [(k, v)]"
| "Map_set (e # m) k v = (if fst e = k then (k, v) # m else e # Map_set m k v)"

definition Map_delete :: "'v Map \<Rightarrow> int \<Rightarrow> 'v Map" where
  "Map_delete m k = filter (\<lambda>e. fst e \<noteq> k) m"

definition Map_values :: "'v Map \<Rightarrow> 'v list" where
  "Map_values m = map snd m"

definition Map_entries :: "'v Map \<Rightarrow> (int \<times> 'v) list" where
  "Map_entries m = m"

text \<open>A \<open>Set\<close> keeps insertion order and ignores a value already present.\<close>

definition Set_add :: "'a list \<Rightarrow> 'a \<Rightarrow> 'a list" where
  "Set_add xs x = (if x \<in> set xs then xs else xs @ [x])"

section \<open>The schema\<close>

text \<open>
  The rows of \<open>shared/schema.ts\<close>. Field names carry the entity as a prefix, since the
  entities share the names \<open>id\<close>, \<open>boardId\<close>, \<open>title\<close>, \<open>createdBy\<close> and others.
\<close>

record User =
  user_id :: int
  user_username :: string
  user_password :: string
  user_phoneNumber :: string
  user_displayName :: "string option"
  user_photoURL :: "string option"

record InsertUser =
  iu_username :: string
  iu_password :: string
  iu_phoneNumber :: string
  iu_displayName :: "string optional"
  iu_photoURL :: "string optional"

record Board =
  board_id :: "int or_undefined"
  board_title :: "string or_undefined"
  board_description :: "string option or_undefined"
  board_color :: "string or_undefined"
  board_createdBy :: "int or_undefined"
  board_createdAt :: "Date or_undefined"

record InsertBoard =
  ib_title :: string
  ib_description :: "string optional"
  ib_color :: "string optional"
  ib_createdBy :: int

record PartialBoard =
  pb_id :: "int or_undefined option"
  pb_title :: "string or_undefined option"
  pb_description :: "string option or_undefined option"
  pb_color :: "string or_undefined option"
  pb_createdBy :: "int or_undefined option"
  pb_createdAt :: "Date or_undefined option"

record BoardMember =
  member_id :: int
  member_boardId :: int
  member_userId :: int
  member_role :: string

record InsertBoardMember =
  im_boardId :: int
  im_userId :: int
  im_role :: "string optional"

record Todo =
  todo_id :: int
  todo_boardId :: int
  todo_title :: string
  todo_description :: "string option"
  todo_dueDate :: "Date option"
  todo_priority :: string
  todo_status :: string
  todo_assignedTo :: "int option"
  todo_createdBy :: int
  todo_createdAt :: Date
  todo_updatedAt :: Date

record InsertTodo =
  it_boardId :: int
  it_title :: string
  it_description :: "string optional"
  it_dueDate :: "Date optional"
  it_priority :: "string optional"
  it_status :: "string optional"
  it_assignedTo :: "int optional"
  it_createdBy :: int

record PartialTodo =
  pt_id :: "int option"
  pt_boardId :: "int option"
  pt_title :: "string option"
  pt_description :: "string option option"
  pt_dueDate :: "Date option option"
  pt_priority :: "string option"
  pt_status :: "string option"
  pt_assignedTo :: "int option option"
  pt_createdBy :: "int option"
  pt_createdAt :: "Date option"
  pt_updatedAt :: "Date option"

text \<open>
  \<open>BoardWithMemberCount\<close> is \<open>{ ...board, todoCount, memberCount }\<close>. The spread of
  \<open>undefined\<close> contributes no property, so the board part is optional in the model.
\<close>

record BoardWithMemberCount =
  bwc_board :: "Board option"
  bwc_todoCount :: nat
  bwc_memberCount :: nat

text \<open>\<open>BoardWithMembers\<close>: a member whose account is missing shows as \<open>undefined\<close>.\<close>

record BoardWithMembers =
  bwm_board :: Board
  bwm_members :: "User option list"

text \<open>\<open>TodoWithAssignee\<close>: the todo and, when resolved, its assignee.\<close>

record TodoWithAssignee =
  twa_todo :: Todo
  twa_assignee :: "User option"

section \<open>MemStorage\<close>

record MemStorage =
  users :: "User Map"
  boards :: "Board Map"
  boardMembers :: "BoardMember Map"
  todos :: "Todo Map"
  currentUserId :: int
  currentBoardId :: int
  currentBoardMemberId :: int
  currentTodoId :: int

text \<open>The constructor.\<close>

definition MemStorage_new :: MemStorage where
  "MemStorage_new =
     \<lparr> users = [], boards = [], boardMembers = [], todos = [],
       currentUserId = 1, currentBoardId = 1, currentBoardMemberId = 1, currentTodoId = 1 \<rparr>"

subsection \<open>User operations\<close>

definition getUser :: "MemStorage \<Rightarrow> int \<Rightarrow> User option" where
  "getUser s i = Map_get (users s) i"

definition getUserByUsername :: "MemStorage \<Rightarrow> string \<Rightarrow> User option" where
  "getUserByUsername s name = find (\<lambda>user. user_username user = name) (Map_values (users s))"

definition getUserByPhoneNumber :: "MemStorage \<Rightarrow> string \<Rightarrow> User option" where
  "getUserByPhoneNumber s phone =
     find (\<lambda>user. user_phoneNumber user = phone) (Map_values (users s))"

definition createUser :: "MemStorage \<Rightarrow> InsertUser \<Rightarrow> User \<times> MemStorage" where
  "createUser s insertUser =
     (let i = currentUserId s;
          s1 = s\<lparr>currentUserId := i + 1\<rparr>;
          user = \<lparr> user_id = i,
                   user_username = iu_username insertUser,
                   user_password = iu_password insertUser,
                   user_phoneNumber = iu_phoneNumber insertUser,
                   user_displayName = string_or_null (iu_displayName insertUser),
                   user_photoURL = string_or_null (iu_photoURL insertUser) \<rparr>
      in (user, s1\<lparr>users := Map_set (users s1) i user\<rparr>))"

subsection \<open>Board member operations\<close>

definition getBoardMembers :: "MemStorage \<Rightarrow> int \<Rightarrow> BoardMember list" where
  "getBoardMembers s boardId =
     filter (\<lambda>member. member_boardId member = boardId) (Map_values (boardMembers s))"

definition addBoardMember :: "MemStorage \<Rightarrow> InsertBoardMember \<Rightarrow> BoardMember \<times> MemStorage" where
  "addBoardMember s insertMember =
     (case find (\<lambda>member. member_boardId member = im_boardId insertMember
                          \<and> member_userId member = im_userId insertMember)
                (Map_values (boardMembers s)) of
        Some existingMember \<Rightarrow> (existingMember, s)
      | None \<Rightarrow>
          (let i = currentBoardMemberId s;
               s1 = s\<lparr>currentBoardMemberId := i + 1\<rparr>;
               member = \<lparr> member_id = i,
                          member_boardId = im_boardId insertMember,
                          member_userId = im_userId insertMember,
                          member_role = string_or (im_role insertMember) ''editor'' \<rparr>
           in (member, s1\<lparr>boardMembers := Map_set (boardMembers s1) i member\<rparr>)))"

text \<open>
  The loop \<open>for (const [memberId, member] of this.boardMembers.entries())\<close> of
  \<open>removeBoardMember\<close>: it deletes the first match and breaks.
\<close>

fun removeBoardMember_loop ::
  "(int \<times> BoardMember) list \<Rightarrow> int \<Rightarrow> int \<Rightarrow> BoardMember Map \<Rightarrow> bool \<times> BoardMember Map" where
  "removeBoardMember_loop [] boardId userId m = (False, m)"
| "removeBoardMember_loop ((memberId, member) # es) boardId userId m =
     (if member_boardId member = boardId \<and> member_userId member = userId
      then (True, Map_delete m memberId)
      else removeBoardMember_loop es boardId userId m)"

definition removeBoardMember :: "MemStorage \<Rightarrow> int \<Rightarrow> int \<Rightarrow> bool \<times> MemStorage" where
  "removeBoardMember s boardId userId =
     (let (removed, m) =
            removeBoardMember_loop (Map_entries (boardMembers s)) boardId userId (boardMembers s)
      in (removed, s\<lparr>boardMembers := m\<rparr>))"

text \<open>The loop of \<open>updateBoardMemberRole\<close>: it rewrites the first match and returns it.\<close>

fun updateBoardMemberRole_loop ::
  "(int \<times> BoardMember) list \<Rightarrow> int \<Rightarrow> int \<Rightarrow> string \<Rightarrow> BoardMember Map
     \<Rightarrow> BoardMember option \<times> BoardMember Map" where
  "updateBoardMemberRole_loop [] boardId userId role m = (None, m)"
| "updateBoardMemberRole_loop ((memberId, member) # es) boardId userId role m =
     (if member_boardId member = boardId \<and> member_userId member = userId
      then (let updatedMember = member\<lparr>member_role := role\<rparr>
            in (Some updatedMember, Map_set m memberId updatedMember))
      else updateBoardMemberRole_loop es boardId userId role m)"

definition updateBoardMemberRole ::
  "MemStorage \<Rightarrow> int \<Rightarrow> int \<Rightarrow> string \<Rightarrow> BoardMember option \<times> MemStorage" where
  "updateBoardMemberRole s boardId userId role =
     (let (r, m) = updateBoardMemberRole_loop (Map_entries (boardMembers s))
                     boardId userId role (boardMembers s)
      in (r, s\<lparr>boardMembers := m\<rparr>))"

subsection \<open>Board operations\<close>

text \<open>
  The counts compare the \<open>boardId\<close> of a todo or membership, a number, with a board's
  \<open>id\<close> by \<open>===\<close>; no number equals \<open>undefined\<close>.
\<close>

definition todoCount :: "MemStorage \<Rightarrow> int or_undefined \<Rightarrow> nat" where
  "todoCount s boardId =
     length (filter (\<lambda>todo. Def (todo_boardId todo) = boardId) (Map_values (todos s)))"

definition memberCount :: "MemStorage \<Rightarrow> int or_undefined \<Rightarrow> nat" where
  "memberCount s boardId =
     length (filter (\<lambda>member. Def (member_boardId member) = boardId)
               (Map_values (boardMembers s)))"

definition getBoards :: "MemStorage \<Rightarrow> BoardWithMemberCount list" where
  "getBoards s =
     map (\<lambda>board. \<lparr> bwc_board = Some board,
                     bwc_todoCount = todoCount s (board_id board),
                     bwc_memberCount = memberCount s (board_id board) \<rparr>)
         (Map_values (boards s))"

text \<open>
  \<open>getBoardsByUser\<close> first collects handles into a \<open>Set\<close>: the boards the user created,
  then the boards of the user's memberships. Then it looks each handle up; the non-null
  assertion \<open>this.boards.get(boardId)!\<close> checks nothing at run time. The keys of the map
  are numbers, so a lookup of \<open>undefined\<close> finds nothing.
\<close>

definition getBoardsByUser_boardIds :: "MemStorage \<Rightarrow> int \<Rightarrow> int or_undefined list" where
  "getBoardsByUser_boardIds s userId =
     (let boardIds1 =
            fold (\<lambda>board ids. Set_add ids (board_id board))
                 (filter (\<lambda>board. board_createdBy board = Def userId) (Map_values (boards s))) []
      in fold (\<lambda>member ids. Set_add ids (Def (member_boardId member)))
              (filter (\<lambda>member. member_userId member = userId) (Map_values (boardMembers s)))
              boardIds1)"

definition getBoardsByUser :: "MemStorage \<Rightarrow> int \<Rightarrow> BoardWithMemberCount list" where
  "getBoardsByUser s userId =
     map (\<lambda>boardId. \<lparr> bwc_board = (case boardId of Undef \<Rightarrow> None
                                                  | Def i \<Rightarrow> Map_get (boards s) i),
                       bwc_todoCount = todoCount s boardId,
                       bwc_memberCount = memberCount s boardId \<rparr>)
         (getBoardsByUser_boardIds s userId)"

definition getBoard :: "MemStorage \<Rightarrow> int \<Rightarrow> Board option" where
  "getBoard s i = Map_get (boards s) i"

definition getBoardWithMembers :: "MemStorage \<Rightarrow> int \<Rightarrow> BoardWithMembers option" where
  "getBoardWithMembers s i =
     (case Map_get (boards s) i of
        None \<Rightarrow> None
      | Some board \<Rightarrow>
          (let memberIds = map member_userId
                 (filter (\<lambda>member. member_boardId member = i) (Map_values (boardMembers s)));
               members = map (\<lambda>userId. Map_get (users s) userId) memberIds
           in Some \<lparr> bwm_board = board, bwm_members = members \<rparr>))"

text \<open>
  \<open>createBoard\<close> stores the board and then calls \<open>addBoardMember\<close>, whose body runs to its
  end before \<open>createBoard\<close> is suspended at its \<open>await\<close>: both writes are done at the
  only point where another operation can run, so the call is one step of the model.
\<close>

definition createBoard :: "MemStorage \<Rightarrow> InsertBoard \<Rightarrow> Date \<Rightarrow> Board \<times> MemStorage" where
  "createBoard s insertBoard now =
     (let i = currentBoardId s;
          s1 = s\<lparr>currentBoardId := i + 1\<rparr>;
          board = \<lparr> board_id = Def i,
                    board_title = Def (ib_title insertBoard),
                    board_description = Def (string_or_null (ib_description insertBoard)),
                    board_color = Def (string_or (ib_color insertBoard) ''primary''),
                    board_createdBy = Def (ib_createdBy insertBoard),
                    board_createdAt = Def now \<rparr>;
          s2 = s1\<lparr>boards := Map_set (boards s1) i board\<rparr>;
          (member, s3) = addBoardMember s2
              \<lparr> im_boardId = i, im_userId = ib_createdBy insertBoard, im_role = Val ''admin'' \<rparr>
      in (board, s3))"

definition updateBoard :: "MemStorage \<Rightarrow> int \<Rightarrow> PartialBoard \<Rightarrow> Board option \<times> MemStorage" where
  "updateBoard s i updates =
     (case Map_get (boards s) i of
        None \<Rightarrow> (None, s)
      | Some board \<Rightarrow>
          (let updatedBoard =
                 \<lparr> board_id = pick (pb_id updates) (board_id board),
                   board_title = pick (pb_title updates) (board_title board),
                   board_description = pick (pb_description updates) (board_description board),
                   board_color = pick (pb_color updates) (board_color board),
                   board_createdBy = pick (pb_createdBy updates) (board_createdBy board),
                   board_createdAt = pick (pb_createdAt updates) (board_createdAt board) \<rparr>
           in (Some updatedBoard, s\<lparr>boards := Map_set (boards s) i updatedBoard\<rparr>)))"

text \<open>
  The two cascade loops of \<open>deleteBoard\<close>. Each walks the entries of a map and deletes
  the entry it stands on when that entry belongs to the board; deleting the current entry
  does not disturb the iteration over the rest.
\<close>

fun deleteBoard_members ::
  "(int \<times> BoardMember) list \<Rightarrow> int \<Rightarrow> BoardMember Map \<Rightarrow> BoardMember Map" where
  "deleteBoard_members [] i m = m"
| "deleteBoard_members ((memberId, member) # es) i m =
     deleteBoard_members es i (if member_boardId member = i then Map_delete m memberId else m)"

fun deleteBoard_todos :: "(int \<times> Todo) list \<Rightarrow> int \<Rightarrow> Todo Map \<Rightarrow> Todo Map" where
  "deleteBoard_todos [] i m = m"
| "deleteBoard_todos ((todoId, todo) # es) i m =
     deleteBoard_todos es i (if todo_boardId todo = i then Map_delete m todoId else m)"

definition deleteBoard :: "MemStorage \<Rightarrow> int \<Rightarrow> bool \<times> MemStorage" where
  "deleteBoard s i =
     (let deleted = Map_has (boards s) i;
          s1 = s\<lparr>boards := Map_delete (boards s) i\<rparr>
      in if deleted
         then (let s2 = s1\<lparr>boardMembers :=
                             deleteBoard_members (Map_entries (boardMembers s1)) i (boardMembers s1)\<rparr>;
                   s3 = s2\<lparr>todos := deleteBoard_todos (Map_entries (todos s2)) i (todos s2)\<rparr>
               in (deleted, s3))
         else (deleted, s1))"

subsection \<open>Todo operations\<close>

definition getTodos :: "MemStorage \<Rightarrow> int \<Rightarrow> TodoWithAssignee list" where
  "getTodos s boardId =
     map (\<lambda>todo. case todo_assignedTo todo of
                    Some a \<Rightarrow> (if a \<noteq> 0
                               then \<lparr> twa_todo = todo, twa_assignee = Map_get (users s) a \<rparr>
                               else \<lparr> twa_todo = todo, twa_assignee = None \<rparr>)
                  | None \<Rightarrow> \<lparr> twa_todo = todo, twa_assignee = None \<rparr>)
         (filter (\<lambda>todo. todo_boardId todo = boardId) (Map_values (todos s)))"

definition getTodo :: "MemStorage \<Rightarrow> int \<Rightarrow> Todo option" where
  "getTodo s i = Map_get (todos s) i"

definition createTodo :: "MemStorage \<Rightarrow> InsertTodo \<Rightarrow> Date \<Rightarrow> Todo \<times> MemStorage" where
  "createTodo s insertTodo now =
     (let i = currentTodoId s;
          s1 = s\<lparr>currentTodoId := i + 1\<rparr>;
          todo = \<lparr> todo_id = i,
                   todo_boardId = it_boardId insertTodo,
                   todo_title = it_title insertTodo,
                   todo_description = string_or_null (it_description insertTodo),
                   todo_dueDate = date_or_null (it_dueDate insertTodo),
                   todo_priority = string_or (it_priority insertTodo) ''medium'',
                   todo_status = string_or (it_status insertTodo) ''todo'',
                   todo_assignedTo = number_or_null (it_assignedTo insertTodo),
                   todo_createdBy = it_createdBy insertTodo,
                   todo_createdAt = now,
                   todo_updatedAt = now \<rparr>
      in (todo, s1\<lparr>todos := Map_set (todos s1) i todo\<rparr>))"

definition updateTodo ::
  "MemStorage \<Rightarrow> int \<Rightarrow> PartialTodo \<Rightarrow> Date \<Rightarrow> Todo option \<times> MemStorage" where
  "updateTodo s i updates now =
     (case Map_get (todos s) i of
        None \<Rightarrow> (None, s)
      | Some todo \<Rightarrow>
          (let updatedTodo =
                 \<lparr> todo_id = pick (pt_id updates) (todo_id todo),
                   todo_boardId = pick (pt_boardId updates) (todo_boardId todo),
                   todo_title = pick (pt_title updates) (todo_title todo),
                   todo_description = pick (pt_description updates) (todo_description todo),
                   todo_dueDate = pick (pt_dueDate updates) (todo_dueDate todo),
                   todo_priority = pick (pt_priority updates) (todo_priority todo),
                   todo_status = pick (pt_status updates) (todo_status todo),
                   todo_assignedTo = pick (pt_assignedTo updates) (todo_assignedTo todo),
                   todo_createdBy = pick (pt_createdBy updates) (todo_createdBy todo),
                   todo_createdAt = pick (pt_createdAt updates) (todo_createdAt todo),
                   todo_updatedAt = now \<rparr>
           in (Some updatedTodo, s\<lparr>todos := Map_set (todos s) i updatedTodo\<rparr>)))"

definition deleteTodo :: "MemStorage \<Rightarrow> int \<Rightarrow> bool \<times> MemStorage" where
  "deleteTodo s i = (Map_has (todos s) i, s\<lparr>todos := Map_delete (todos s) i\<rparr>)"

section \<open>Runs of the storage layer\<close>

text \<open>
  The calls that change the store. A run is a sequence of such calls, each with the clock
  reading it sees where it reads the clock.
\<close>

datatype call =
    CreateUser InsertUser
  | CreateBoard InsertBoard Date
  | UpdateBoard int PartialBoard
  | DeleteBoard int
  | AddBoardMember InsertBoardMember
  | RemoveBoardMember int int
  | UpdateBoardMemberRole int int string
  | CreateTodo InsertTodo Date
  | UpdateTodo int PartialTodo Date
  | DeleteTodo int

fun perform :: "MemStorage \<Rightarrow> call \<Rightarrow> MemStorage" where
  "perform s (CreateUser ins) = snd (createUser s ins)"
| "perform s (CreateBoard ins now) = snd (createBoard s ins now)"
| "perform s (UpdateBoard i updates) = snd (updateBoard s i updates)"
| "perform s (DeleteBoard i) = snd (deleteBoard s i)"
| "perform s (AddBoardMember ins) = snd (addBoardMember s ins)"
| "perform s (RemoveBoardMember b u) = snd (removeBoardMember s b u)"
| "perform s (UpdateBoardMemberRole b u role) = snd (updateBoardMemberRole s b u role)"
| "perform s (CreateTodo ins now) = snd (createTodo s ins now)"
| "perform s (UpdateTodo i updates now) = snd (updateTodo s i updates now)"
| "perform s (DeleteTodo i) = snd (deleteTodo s i)"

definition perform_all :: "MemStorage \<Rightarrow> call list \<Rightarrow> MemStorage" where
  "perform_all s cs = fold (\<lambda>c s'. perform s' c) cs s"

text \<open>The stores the program can be in: the constructor's, and any store after a call.\<close>

inductive reachable :: "MemStorage \<Rightarrow> bool" where
  new: "reachable MemStorage_new"
| call: "reachable s \<Longrightarrow> reachable (perform s c)"

text \<open>
  What every reachable store satisfies: each map has one entry per handle, every handle in
  a map is below the counter of its kind, and no two memberships share board and user.
\<close>

definition keys_below :: "'v Map \<Rightarrow> int \<Rightarrow> bool" where
  "keys_below m c = (\<forall>k \<in> set (map fst m). k < c)"

definition member_pair :: "int \<times> BoardMember \<Rightarrow> int \<times> int" where
  "member_pair e = (member_boardId (snd e), member_userId (snd e))"

definition store_inv :: "MemStorage \<Rightarrow> bool" where
  "store_inv s =
     (distinct (map fst (users s)) \<and> keys_below (users s) (currentUserId s)
      \<and> distinct (map fst (boards s)) \<and> keys_below (boards s) (currentBoardId s)
      \<and> distinct (map fst (boardMembers s))
      \<and> keys_below (boardMembers s) (currentBoardMemberId s)
      \<and> distinct (map fst (todos s)) \<and> keys_below (todos s) (currentTodoId s)
      \<and> distinct (map member_pair (boardMembers s)))"

subsection \<open>Handles assigned in a run\<close>

datatype kind = Account | BoardKind | Membership | TodoKind

definition counter :: "kind \<Rightarrow> MemStorage \<Rightarrow> int" where
  "counter K s = (case K of Account \<Rightarrow> currentUserId s | BoardKind \<Rightarrow> currentBoardId s
                  | Membership \<Rightarrow> currentBoardMemberId s | TodoKind \<Rightarrow> currentTodoId s)"

definition handles_in :: "kind \<Rightarrow> MemStorage \<Rightarrow> int list" where
  "handles_in K s = (case K of Account \<Rightarrow> map fst (users s) | BoardKind \<Rightarrow> map fst (boards s)
                     | Membership \<Rightarrow> map fst (boardMembers s) | TodoKind \<Rightarrow> map fst (todos s))"

text \<open>
  The handles a call gives to new entities, read off the entities it returns.
  \<open>addBoardMember\<close> gives one only when it finds no membership for the pair;
  \<open>createBoard\<close> gives one to the board and, through \<open>addBoardMember\<close>, possibly one to
  the creator's membership (it adds the member after storing the board, which leaves the
  memberships and their counter as they were before the call).
\<close>

definition addBoardMember_assigned :: "MemStorage \<Rightarrow> InsertBoardMember \<Rightarrow> (kind \<times> int) list" where
  "addBoardMember_assigned s insertMember =
     (case find (\<lambda>member. member_boardId member = im_boardId insertMember
                          \<and> member_userId member = im_userId insertMember)
                (Map_values (boardMembers s)) of
        Some existingMember \<Rightarrow> []
      | None \<Rightarrow> [(Membership, member_id (fst (addBoardMember s insertMember)))])"

fun assigned :: "MemStorage \<Rightarrow> call \<Rightarrow> (kind \<times> int) list" where
  "assigned s (CreateUser ins) = [(Account, user_id (fst (createUser s ins)))]"
| "assigned s (CreateBoard ins now) =
     (case board_id (fst (createBoard s ins now)) of
        Def i \<Rightarrow> [(BoardKind, i)] | Undef \<Rightarrow> [])
       @ addBoardMember_assigned s
           \<lparr> im_boardId = currentBoardId s, im_userId = ib_createdBy ins, im_role = Val ''admin'' \<rparr>"
| "assigned s (AddBoardMember ins) = addBoardMember_assigned s ins"
| "assigned s (CreateTodo ins now) = [(TodoKind, todo_id (fst (createTodo s ins now)))]"
| "assigned s _ = []"

fun assigned_all :: "MemStorage \<Rightarrow> call list \<Rightarrow> (kind \<times> int) list" where
  "assigned_all s [] = []"
| "assigned_all s (c # cs) = assigned s c @ assigned_all (perform s c) cs"

definition handles_of :: "kind \<Rightarrow> (kind \<times> int) list \<Rightarrow> int list" where
  "handles_of K es = map snd (filter (\<lambda>e. fst e = K) es)"

subsection \<open>The scenario of the specification\<close>

definition alice :: InsertUser where
  "alice = \<lparr> iu_username = ''alice'', iu_password = ''hash'', iu_phoneNumber = ''+15550001'',
             iu_displayName = Undefined, iu_photoURL = Undefined \<rparr>"

definition launch_plan :: InsertBoard where
  "launch_plan = \<lparr> ib_title = ''Launch Plan'', ib_description = Undefined,
                   ib_color = Undefined, ib_createdBy = 1 \<rparr>"

definition write_spec :: InsertTodo where
  "write_spec = \<lparr> it_boardId = 1, it_title = ''Write spec'', it_description = Undefined,
                  it_dueDate = Undefined, it_priority = Undefined, it_status = Undefined,
                  it_assignedTo = Undefined, it_createdBy = 1 \<rparr>"

definition scenario :: MemStorage where
  "scenario = perform_all MemStorage_new
                [CreateUser alice, CreateBoard launch_plan 1000, CreateTodo write_spec 2000]"

text \<open>The scenario with a second board, which has a member and a todo of its own.\<close>

definition two_boards :: MemStorage where
  "two_boards = perform_all scenario
     [CreateBoard \<lparr> ib_title = ''Roadmap'', ib_description = Val ''Q3'', ib_color = Val ''accent'',
                    ib_createdBy = 1 \<rparr> 3000,
      CreateTodo (write_spec\<lparr>it_boardId := 2, it_title := ''Draft roadmap''\<rparr>) 4000]"

text \<open>
  The object the board route builds from the request body \<open>{title: Plan B}\<close>: it binds
  the keys \<open>description\<close> and \<open>color\<close> to \<open>undefined\<close>.
\<close>

definition title_only :: PartialBoard where
  "title_only = \<lparr> pb_id = None, pb_title = Some (Def ''Plan B''),
                  pb_description = Some Undef, pb_color = Some Undef,
                  pb_createdBy = None, pb_createdAt = None \<rparr>"

definition no_updates :: PartialTodo where
  "no_updates = \<lparr> pt_id = None, pt_boardId = None, pt_title = None, pt_description = None,
                  pt_dueDate = None, pt_priority = None, pt_status = None, pt_assignedTo = None,
                  pt_createdBy = None, pt_createdAt = None, pt_updatedAt = None \<rparr>"

text \<open>
  A store in which a membership for board handle 1 was added before any board exists
  (\<open>addBoardMember\<close> does not look the board up), and a store holding a membership whose
  board does not exist.
\<close>

definition early_member :: MemStorage where
  "early_member = perform MemStorage_new
     (AddBoardMember \<lparr> im_boardId = 1, im_userId = 1, im_role = Val ''viewer'' \<rparr>)"

definition dangling_member :: MemStorage where
  "dangling_member = perform MemStorage_new
     (AddBoardMember \<lparr> im_boardId = 7, im_userId = 1, im_role = Undefined \<rparr>)"

definition no_board_updates :: PartialBoard where
  "no_board_updates = \<lparr> pb_id = None, pb_title = None, pb_description = None, pb_color = None,
                        pb_createdBy = None, pb_createdAt = None \<rparr>"

text \<open>The memberships of account \<open>A\<close> on board \<open>B\<close>.\<close>

definition memberships_of :: "MemStorage \<Rightarrow> int \<Rightarrow> int \<Rightarrow> BoardMember list" where
  "memberships_of s B A =
     filter (\<lambda>member. member_boardId member = B \<and> member_userId member = A)
       (Map_values (boardMembers s))"

section \<open>Properties\<close>


subsection \<open>Facts about the Map\<close>

lemma Map_get_None_iff: "Map_get m k = None \<longleftrightarrow> \<not> Map_has m k"
  by (simp add: Map_get_def Map_has_def map_of_eq_None_iff)

lemma keys_Map_set: "fst ` set (Map_set m k v) = insert k (fst ` set m)"
  by (induction m) auto

lemma Map_get_Map_set: "Map_get (Map_set m k v) k' = (if k' = k then Some v else Map_get m k')"
  by (induction m) (auto simp: Map_get_def)

lemma Map_set_new: "k \<notin> set (map fst m) \<Longrightarrow> Map_set m k v = m @ [(k, v)]"
  by (induction m) auto

lemma distinct_Map_set: "distinct (map fst m) \<Longrightarrow> distinct (map fst (Map_set m k v))"
  by (induction m) (auto simp: keys_Map_set)

lemma Map_set_present_map:
  "distinct (map fst m) \<Longrightarrow> (k, v) \<in> set m \<Longrightarrow> f (k, v') = f (k, v)
     \<Longrightarrow> map f (Map_set m k v') = map f m"
proof (induction m)
  case Nil
  then show ?case by simp
next
  case (Cons e m)
  show ?case
  proof (cases "fst e = k")
    case True
    with Cons.prems have "e = (k, v)"
      by (cases e) (auto simp: rev_image_eqI)
    with Cons.prems show ?thesis by simp
  next
    case False
    with Cons show ?thesis by auto
  qed
qed

lemma Map_get_Map_delete:
  "Map_get (Map_delete m k) k' = (if k' = k then None else Map_get m k')"
  by (induction m) (auto simp: Map_get_def Map_delete_def)

lemma Map_delete_absent: "\<not> Map_has m k \<Longrightarrow> Map_delete m k = m"
  by (induction m) (auto simp: Map_has_def Map_delete_def)

lemma keys_below_filter: "keys_below m c \<Longrightarrow> keys_below (filter P m) c"
  by (auto simp: keys_below_def)

lemma keys_below_fresh: "keys_below m c \<Longrightarrow> c \<notin> set (map fst m)"
  by (auto simp: keys_below_def)

subsection \<open>The loops\<close>

lemma deleteBoard_members_filter:
  "deleteBoard_members es i m =
     filter (\<lambda>e. fst e \<notin> fst ` {x \<in> set es. member_boardId (snd x) = i}) m"
proof (induction es i m rule: deleteBoard_members.induct)
  case (1 i m)
  then show ?case by simp
next
  case (2 memberId member es i m)
  have eq: "{x \<in> set ((memberId, member) # es). member_boardId (snd x) = i} =
        (if member_boardId member = i then {(memberId, member)} else {})
          \<union> {x \<in> set es. member_boardId (snd x) = i}"
    by auto
  show ?case
    unfolding deleteBoard_members.simps 2 eq
    by (auto simp: Map_delete_def intro!: filter_cong)
qed

lemma deleteBoard_todos_filter:
  "deleteBoard_todos es i m =
     filter (\<lambda>e. fst e \<notin> fst ` {x \<in> set es. todo_boardId (snd x) = i}) m"
proof (induction es i m rule: deleteBoard_todos.induct)
  case (1 i m)
  then show ?case by simp
next
  case (2 todoId todo es i m)
  have eq: "{x \<in> set ((todoId, todo) # es). todo_boardId (snd x) = i} =
        (if todo_boardId todo = i then {(todoId, todo)} else {})
          \<union> {x \<in> set es. todo_boardId (snd x) = i}"
    by auto
  show ?case
    unfolding deleteBoard_todos.simps 2 eq
    by (auto simp: Map_delete_def intro!: filter_cong)
qed

lemma cascade_filter_distinct:
  "distinct (map fst m) \<Longrightarrow>
     filter (\<lambda>e. fst e \<notin> fst ` {x \<in> set m. P (snd x)}) m = filter (\<lambda>e. \<not> P (snd e)) m"
proof (rule filter_cong[OF refl])
  fix e assume d: "distinct (map fst m)" and e: "e \<in> set m"
  show "(fst e \<notin> fst ` {x \<in> set m. P (snd x)}) = (\<not> P (snd e))"
  proof
    assume "fst e \<notin> fst ` {x \<in> set m. P (snd x)}"
    with e show "\<not> P (snd e)" by auto
  next
    assume n: "\<not> P (snd e)"
    show "fst e \<notin> fst ` {x \<in> set m. P (snd x)}"
    proof
      assume "fst e \<in> fst ` {x \<in> set m. P (snd x)}"
      then obtain x where x: "x \<in> set m" "P (snd x)" "fst x = fst e" by auto
      from d x(1) e x(3) have "x = e" by (metis eq_key_imp_eq_value prod.collapse)
      with x n show False by simp
    qed
  qed
qed

lemma removeBoardMember_loop_result:
  "snd (removeBoardMember_loop es b u m) = m
     \<or> (\<exists>k. snd (removeBoardMember_loop es b u m) = Map_delete m k)"
  by (induction es b u m rule: removeBoardMember_loop.induct) auto

lemma updateBoardMemberRole_loop_result:
  "snd (updateBoardMemberRole_loop es b u r m) = m
     \<or> (\<exists>k v. (k, v) \<in> set es
           \<and> snd (updateBoardMemberRole_loop es b u r m) = Map_set m k (v\<lparr>member_role := r\<rparr>))"
  by (induction es b u r m rule: updateBoardMemberRole_loop.induct) (auto simp: Let_def)


subsection \<open>Every call keeps the store well formed\<close>

lemma store_inv_new: "store_inv MemStorage_new"
  by (simp add: store_inv_def MemStorage_new_def keys_below_def)

lemma keys_below_Map_set_counter: "keys_below m c \<Longrightarrow> keys_below (Map_set m c v) (c + 1)"
  by (fastforce simp: keys_below_def keys_Map_set)

lemma store_inv_createUser: "store_inv s \<Longrightarrow> store_inv (snd (createUser s ins))"
  by (simp add: store_inv_def createUser_def Let_def distinct_Map_set keys_below_Map_set_counter)

lemma store_inv_createTodo: "store_inv s \<Longrightarrow> store_inv (snd (createTodo s ins now))"
  by (simp add: store_inv_def createTodo_def Let_def distinct_Map_set keys_below_Map_set_counter)

lemma find_member_None:
  "find (\<lambda>member. member_boardId member = b \<and> member_userId member = u) (Map_values m) = None
     \<longleftrightarrow> (b, u) \<notin> set (map member_pair m)"
  by (force simp: find_None_iff Map_values_def member_pair_def)

lemma store_inv_addBoardMember: "store_inv s \<Longrightarrow> store_inv (snd (addBoardMember s ins))"
proof (cases "find (\<lambda>member. member_boardId member = im_boardId ins
                          \<and> member_userId member = im_userId ins)
                (Map_values (boardMembers s))")
  case (Some a)
  assume "store_inv s"
  with Some show ?thesis by (simp add: addBoardMember_def)
next
  case None
  assume inv: "store_inv s"
  then have fresh: "currentBoardMemberId s \<notin> set (map fst (boardMembers s))"
    by (intro keys_below_fresh) (simp add: store_inv_def)
  from None have nopair: "(im_boardId ins, im_userId ins) \<notin> set (map member_pair (boardMembers s))"
    by (simp add: find_member_None)
  let ?member = "\<lparr> member_id = currentBoardMemberId s, member_boardId = im_boardId ins,
                   member_userId = im_userId ins,
                   member_role = string_or (im_role ins) ''editor'' \<rparr>"
  let ?m = "Map_set (boardMembers s) (currentBoardMemberId s) ?member"
  from inv have 1: "distinct (map fst ?m)" "keys_below ?m (currentBoardMemberId s + 1)"
    by (simp_all add: store_inv_def distinct_Map_set keys_below_Map_set_counter)
  from inv nopair have 2: "distinct (map member_pair ?m)"
    unfolding Map_set_new[OF fresh] by (simp add: store_inv_def member_pair_def)
  from inv None 1 2 show ?thesis
    by (simp add: addBoardMember_def Let_def store_inv_def)
qed

lemma store_inv_boards_update:
  "store_inv s \<Longrightarrow> distinct (map fst b) \<Longrightarrow> keys_below b c \<Longrightarrow> currentBoardId s \<le> c
     \<Longrightarrow> store_inv (s\<lparr>currentBoardId := c, boards := b\<rparr>)"
  by (simp add: store_inv_def)

lemma store_inv_createBoard: "store_inv s \<Longrightarrow> store_inv (snd (createBoard s ins now))"
proof -
  assume inv: "store_inv s"
  let ?i = "currentBoardId s"
  let ?b = "\<lparr> board_id = Def ?i, board_title = Def (ib_title ins),
              board_description = Def (string_or_null (ib_description ins)),
              board_color = Def (string_or (ib_color ins) ''primary''),
              board_createdBy = Def (ib_createdBy ins), board_createdAt = Def now \<rparr>"
  let ?s2 = "s\<lparr>currentBoardId := ?i + 1, boards := Map_set (boards s) ?i ?b\<rparr>"
  from inv have "store_inv ?s2"
    by (intro store_inv_boards_update) (simp_all add: store_inv_def distinct_Map_set keys_below_Map_set_counter)
  then have "store_inv (snd (addBoardMember ?s2
       \<lparr> im_boardId = ?i, im_userId = ib_createdBy ins, im_role = Val ''admin'' \<rparr>))"
    by (rule store_inv_addBoardMember)
  then show ?thesis
    by (simp add: createBoard_def Let_def split_beta)
qed

lemma Map_get_Some_key: "Map_get m k = Some v \<Longrightarrow> k \<in> fst ` set m"
  by (metis Map_get_None_iff Map_has_def option.distinct(1) set_map)

lemma keys_below_Map_set_present:
  "keys_below m c \<Longrightarrow> k \<in> fst ` set m \<Longrightarrow> keys_below (Map_set m k v) c"
  by (auto simp: keys_below_def keys_Map_set)

lemma Map_set_present_inv:
  assumes "Map_get m k = Some v" "distinct (map fst m)" "keys_below m c"
  shows "distinct (map fst (Map_set m k v')) \<and> keys_below (Map_set m k v') c"
  using assms Map_get_Some_key[OF assms(1)]
  by (simp add: distinct_Map_set keys_below_Map_set_present)

lemma store_inv_updateBoard: "store_inv s \<Longrightarrow> store_inv (snd (updateBoard s i updates))"
proof (cases "Map_get (boards s) i")
  case None
  assume "store_inv s"
  with None show ?thesis by (simp add: updateBoard_def)
next
  case (Some board)
  assume inv: "store_inv s"
  then have "distinct (map fst (boards s))" "keys_below (boards s) (currentBoardId s)"
    by (simp_all add: store_inv_def)
  from Map_set_present_inv[OF Some this] inv Some show ?thesis
    by (simp add: updateBoard_def Let_def store_inv_def)
qed

lemma store_inv_updateTodo: "store_inv s \<Longrightarrow> store_inv (snd (updateTodo s i updates now))"
proof (cases "Map_get (todos s) i")
  case None
  assume "store_inv s"
  with None show ?thesis by (simp add: updateTodo_def)
next
  case (Some todo)
  assume inv: "store_inv s"
  then have "distinct (map fst (todos s))" "keys_below (todos s) (currentTodoId s)"
    by (simp_all add: store_inv_def)
  from Map_set_present_inv[OF Some this] inv Some show ?thesis
    by (simp add: updateTodo_def Let_def store_inv_def)
qed

lemma store_inv_deleteTodo: "store_inv s \<Longrightarrow> store_inv (snd (deleteTodo s i))"
  by (simp add: store_inv_def deleteTodo_def Map_delete_def distinct_map_filter keys_below_filter)

lemma store_inv_deleteBoard: "store_inv s \<Longrightarrow> store_inv (snd (deleteBoard s i))"
  by (simp add: store_inv_def deleteBoard_def Let_def Map_delete_def Map_entries_def
      deleteBoard_members_filter deleteBoard_todos_filter distinct_map_filter keys_below_filter)

lemma store_inv_removeBoardMember: "store_inv s \<Longrightarrow> store_inv (snd (removeBoardMember s b u))"
  using removeBoardMember_loop_result[of "boardMembers s" b u "boardMembers s"]
  by (auto simp: store_inv_def removeBoardMember_def Map_entries_def split_beta Map_delete_def
      distinct_map_filter keys_below_filter)

lemma store_inv_updateBoardMemberRole:
  assumes inv: "store_inv s"
  shows "store_inv (snd (updateBoardMemberRole s b u r))"
proof -
  let ?m = "boardMembers s"
  let ?m' = "snd (updateBoardMemberRole_loop ?m b u r ?m)"
  have s': "snd (updateBoardMemberRole s b u r) = s\<lparr>boardMembers := ?m'\<rparr>"
    by (simp add: updateBoardMemberRole_def Map_entries_def split_beta)
  from updateBoardMemberRole_loop_result[of ?m b u r ?m]
  consider "?m' = ?m" | k v where "(k, v) \<in> set ?m" "?m' = Map_set ?m k (v\<lparr>member_role := r\<rparr>)"
    by blast
  then show ?thesis
  proof cases
    case 1
    with inv s' show ?thesis by (simp add: store_inv_def)
  next
    case 2
    from inv have d: "distinct (map fst ?m)" by (simp add: store_inv_def)
    from 2(1) have kin: "k \<in> fst ` set ?m" by force
    have keys: "map fst ?m' = map fst ?m"
      unfolding 2(2) using d 2(1) by (rule Map_set_present_map) simp
    have pairs: "map member_pair ?m' = map member_pair ?m"
      unfolding 2(2) using d 2(1) by (rule Map_set_present_map) (simp add: member_pair_def)
    from inv have "keys_below ?m' (currentBoardMemberId s)"
      unfolding keys_below_def keys by (simp add: store_inv_def keys_below_def)
    with inv keys pairs show ?thesis
      unfolding s' by (simp add: store_inv_def)
  qed
qed

lemma store_inv_perform: "store_inv s \<Longrightarrow> store_inv (perform s c)"
  by (cases c)
    (simp_all add: store_inv_createUser store_inv_createBoard store_inv_updateBoard
      store_inv_deleteBoard store_inv_addBoardMember store_inv_removeBoardMember
      store_inv_updateBoardMemberRole store_inv_createTodo store_inv_updateTodo
      store_inv_deleteTodo)

lemma reachable_store_inv: "reachable s \<Longrightarrow> store_inv s"
  by (induction rule: reachable.induct) (simp_all add: store_inv_new store_inv_perform)

lemma reachable_perform_all: "reachable s \<Longrightarrow> reachable (perform_all s cs)"
  unfolding perform_all_def
  by (induction cs arbitrary: s) (simp_all add: reachable.call)

lemma reachable_scenario: "reachable scenario"
  unfolding scenario_def by (rule reachable_perform_all) (rule reachable.new)


subsection \<open>deleteBoard\<close>

lemma deleteBoard_absent: "getBoard s B = None \<Longrightarrow> deleteBoard s B = (False, s)"
  by (simp add: getBoard_def deleteBoard_def Let_def Map_get_None_iff Map_delete_absent)

lemma deleteBoard_present_fst: "getBoard s B \<noteq> None \<Longrightarrow> fst (deleteBoard s B)"
  by (simp add: getBoard_def deleteBoard_def Let_def Map_get_None_iff)

lemma deleteBoard_present_boards:
  "getBoard s B \<noteq> None \<Longrightarrow> boards (snd (deleteBoard s B)) = Map_delete (boards s) B"
  by (simp add: getBoard_def deleteBoard_def Let_def Map_get_None_iff)

lemma deleteBoard_present_members:
  "getBoard s B \<noteq> None \<Longrightarrow>
     boardMembers (snd (deleteBoard s B)) =
       filter (\<lambda>e. fst e \<notin> fst ` {x \<in> set (boardMembers s). member_boardId (snd x) = B})
         (boardMembers s)"
  by (simp add: getBoard_def deleteBoard_def Let_def Map_get_None_iff Map_entries_def
      deleteBoard_members_filter)

lemma deleteBoard_present_todos:
  "getBoard s B \<noteq> None \<Longrightarrow>
     todos (snd (deleteBoard s B)) =
       filter (\<lambda>e. fst e \<notin> fst ` {x \<in> set (todos s). todo_boardId (snd x) = B}) (todos s)"
  by (simp add: getBoard_def deleteBoard_def Let_def Map_get_None_iff Map_entries_def
      deleteBoard_todos_filter)

lemma deleteBoard_rest:
  "users (snd (deleteBoard s B)) = users s
   \<and> currentUserId (snd (deleteBoard s B)) = currentUserId s
   \<and> currentBoardId (snd (deleteBoard s B)) = currentBoardId s
   \<and> currentBoardMemberId (snd (deleteBoard s B)) = currentBoardMemberId s
   \<and> currentTodoId (snd (deleteBoard s B)) = currentTodoId s"
  by (simp add: deleteBoard_def Let_def)

lemma cascade_filter_none:
  "e \<in> set (filter (\<lambda>e. fst e \<notin> fst ` {x \<in> set m. P (snd x)}) m) \<Longrightarrow> \<not> P (snd e)"
  by force

text \<open>
  Claim C1. For every board handle \<open>B\<close>: when the board is absent, \<open>deleteBoard\<close>
  returns false (and leaves the store as it was). When the board is present it returns
  true, and in the store it leaves no membership and no todo has \<open>boardId = B\<close>, so that
  \<open>getTodos B\<close> and \<open>getBoardMembers B\<close> are empty and \<open>getBoard B\<close> is absent.
\<close>

theorem deleteBoard_cascade:
  "(getBoard s B = None \<longrightarrow> deleteBoard s B = (False, s))
   \<and> (getBoard s B \<noteq> None \<longrightarrow>
        fst (deleteBoard s B) = True
        \<and> (\<forall>member \<in> set (Map_values (boardMembers (snd (deleteBoard s B)))).
              member_boardId member \<noteq> B)
        \<and> (\<forall>todo \<in> set (Map_values (todos (snd (deleteBoard s B)))). todo_boardId todo \<noteq> B)
        \<and> getTodos (snd (deleteBoard s B)) B = []
        \<and> getBoardMembers (snd (deleteBoard s B)) B = []
        \<and> getBoard (snd (deleteBoard s B)) B = None)"
proof (intro conjI impI)
  assume "getBoard s B = None"
  then show "deleteBoard s B = (False, s)" by (rule deleteBoard_absent)
next
  assume p: "getBoard s B \<noteq> None"
  show "fst (deleteBoard s B) = True"
    using deleteBoard_present_fst[OF p] by simp
  show m: "\<forall>member \<in> set (Map_values (boardMembers (snd (deleteBoard s B)))).
      member_boardId member \<noteq> B"
  proof
    fix member assume "member \<in> set (Map_values (boardMembers (snd (deleteBoard s B))))"
    then obtain e where "e \<in> set (boardMembers (snd (deleteBoard s B)))" "member = snd e"
      unfolding Map_values_def by auto
    then show "member_boardId member \<noteq> B"
      unfolding deleteBoard_present_members[OF p]
      using cascade_filter_none[where P = "\<lambda>member. member_boardId member = B"] by blast
  qed
  show t: "\<forall>todo \<in> set (Map_values (todos (snd (deleteBoard s B)))). todo_boardId todo \<noteq> B"
  proof
    fix todo assume "todo \<in> set (Map_values (todos (snd (deleteBoard s B))))"
    then obtain e where "e \<in> set (todos (snd (deleteBoard s B)))" "todo = snd e"
      unfolding Map_values_def by auto
    then show "todo_boardId todo \<noteq> B"
      unfolding deleteBoard_present_todos[OF p]
      using cascade_filter_none[where P = "\<lambda>todo. todo_boardId todo = B"] by blast
  qed
  from t show "getTodos (snd (deleteBoard s B)) B = []"
    by (simp add: getTodos_def filter_empty_conv)
  from m show "getBoardMembers (snd (deleteBoard s B)) B = []"
    by (simp add: getBoardMembers_def filter_empty_conv)
  show "getBoard (snd (deleteBoard s B)) B = None"
    by (simp add: getBoard_def deleteBoard_present_boards[OF p] Map_get_Map_delete)
qed

lemmas scenario_defs =
  scenario_def perform_all_def createUser_def createBoard_def createTodo_def addBoardMember_def
  MemStorage_new_def alice_def launch_plan_def write_spec_def Let_def string_or_def
  string_or_null_def number_or_null_def date_or_null_def Map_values_def Map_entries_def
  Map_get_def Map_has_def Map_delete_def

lemma scenario_value:
  "scenario =
     \<lparr> users = [(1, \<lparr> user_id = 1, user_username = ''alice'', user_password = ''hash'',
                      user_phoneNumber = ''+15550001'', user_displayName = None,
                      user_photoURL = None \<rparr>)],
       boards = [(1, \<lparr> board_id = Def 1, board_title = Def ''Launch Plan'',
                       board_description = Def None, board_color = Def ''primary'',
                       board_createdBy = Def 1, board_createdAt = Def 1000 \<rparr>)],
       boardMembers = [(1, \<lparr> member_id = 1, member_boardId = 1, member_userId = 1,
                             member_role = ''admin'' \<rparr>)],
       todos = [(1, \<lparr> todo_id = 1, todo_boardId = 1, todo_title = ''Write spec'',
                      todo_description = None, todo_dueDate = None, todo_priority = ''medium'',
                      todo_status = ''todo'', todo_assignedTo = None, todo_createdBy = 1,
                      todo_createdAt = 2000, todo_updatedAt = 2000 \<rparr>)],
       currentUserId = 2, currentBoardId = 2, currentBoardMemberId = 2, currentTodoId = 2 \<rparr>"
  by (simp add: scenario_defs)

theorem deleteBoard_cascade_witness:
  "getBoard scenario 2 = None \<and> deleteBoard scenario 2 = (False, scenario)
   \<and> getBoard scenario 1 \<noteq> None \<and> getTodos scenario 1 \<noteq> [] \<and> getBoardMembers scenario 1 \<noteq> []
   \<and> fst (deleteBoard scenario 1) = True
   \<and> getTodos (snd (deleteBoard scenario 1)) 1 = []
   \<and> getBoardMembers (snd (deleteBoard scenario 1)) 1 = []
   \<and> getBoard (snd (deleteBoard scenario 1)) 1 = None"
proof -
  have a: "getBoard scenario 2 = None"
    by (simp add: scenario_value getBoard_def Map_get_def)
  have p: "getBoard scenario 1 \<noteq> None"
    by (simp add: scenario_value getBoard_def Map_get_def)
  have q: "getTodos scenario 1 \<noteq> [] \<and> getBoardMembers scenario 1 \<noteq> []"
    by (simp add: scenario_value getTodos_def getBoardMembers_def Map_values_def)
  from a p q deleteBoard_cascade[of scenario 2] deleteBoard_cascade[of scenario 1]
  show ?thesis by simp
qed

text \<open>
  Claim C10. In every reachable store, \<open>deleteBoard B\<close> leaves the accounts and all four
  counters unchanged, leaves every board other than \<open>B\<close> unchanged, and leaves the
  memberships and todos whose \<open>boardId\<close> differs from \<open>B\<close> unchanged, entry by entry and
  in their order: after a successful call the three maps are exactly the old ones without the
  entries tied to \<open>B\<close>, and after a failed call the store is the old store.
\<close>

theorem deleteBoard_frame:
  assumes "reachable s"
  shows "users (snd (deleteBoard s B)) = users s
   \<and> (\<forall>k. k \<noteq> B \<longrightarrow> getBoard (snd (deleteBoard s B)) k = getBoard s k)
   \<and> filter (\<lambda>e. fst e \<noteq> B) (boards (snd (deleteBoard s B))) = filter (\<lambda>e. fst e \<noteq> B) (boards s)
   \<and> filter (\<lambda>e. member_boardId (snd e) \<noteq> B) (boardMembers (snd (deleteBoard s B)))
       = filter (\<lambda>e. member_boardId (snd e) \<noteq> B) (boardMembers s)
   \<and> filter (\<lambda>e. todo_boardId (snd e) \<noteq> B) (todos (snd (deleteBoard s B)))
       = filter (\<lambda>e. todo_boardId (snd e) \<noteq> B) (todos s)
   \<and> (getBoard s B \<noteq> None \<longrightarrow>
        boards (snd (deleteBoard s B)) = filter (\<lambda>e. fst e \<noteq> B) (boards s)
        \<and> boardMembers (snd (deleteBoard s B))
            = filter (\<lambda>e. member_boardId (snd e) \<noteq> B) (boardMembers s)
        \<and> todos (snd (deleteBoard s B)) = filter (\<lambda>e. todo_boardId (snd e) \<noteq> B) (todos s))
   \<and> (getBoard s B = None \<longrightarrow> snd (deleteBoard s B) = s)
   \<and> currentUserId (snd (deleteBoard s B)) = currentUserId s
   \<and> currentBoardId (snd (deleteBoard s B)) = currentBoardId s
   \<and> currentBoardMemberId (snd (deleteBoard s B)) = currentBoardMemberId s
   \<and> currentTodoId (snd (deleteBoard s B)) = currentTodoId s"
proof (cases "getBoard s B")
  case None
  then show ?thesis by (simp add: deleteBoard_absent)
next
  case (Some board)
  then have p: "getBoard s B \<noteq> None" by simp
  from assms have inv: "store_inv s" by (rule reachable_store_inv)
  then have dm: "distinct (map fst (boardMembers s))" and dt: "distinct (map fst (todos s))"
    by (simp_all add: store_inv_def)
  have b: "boards (snd (deleteBoard s B)) = filter (\<lambda>e. fst e \<noteq> B) (boards s)"
    by (simp add: deleteBoard_present_boards[OF p] Map_delete_def)
  have m: "boardMembers (snd (deleteBoard s B))
            = filter (\<lambda>e. member_boardId (snd e) \<noteq> B) (boardMembers s)"
    unfolding deleteBoard_present_members[OF p]
    using cascade_filter_distinct[OF dm, of "\<lambda>member. member_boardId member = B"] by simp
  have t: "todos (snd (deleteBoard s B)) = filter (\<lambda>e. todo_boardId (snd e) \<noteq> B) (todos s)"
    unfolding deleteBoard_present_todos[OF p]
    using cascade_filter_distinct[OF dt, of "\<lambda>todo. todo_boardId todo = B"] by simp
  have g: "\<forall>k. k \<noteq> B \<longrightarrow> getBoard (snd (deleteBoard s B)) k = getBoard s k"
    by (simp add: getBoard_def deleteBoard_present_boards[OF p] Map_get_Map_delete)
  from Some b m t g deleteBoard_rest[of s B] show ?thesis by simp
qed

lemma reachable_two_boards: "reachable two_boards"
  unfolding two_boards_def by (rule reachable_perform_all) (rule reachable_scenario)

lemma two_boards_value:
  "two_boards =
     \<lparr> users = [(1, \<lparr> user_id = 1, user_username = ''alice'', user_password = ''hash'',
                      user_phoneNumber = ''+15550001'', user_displayName = None,
                      user_photoURL = None \<rparr>)],
       boards = [(1, \<lparr> board_id = Def 1, board_title = Def ''Launch Plan'',
                       board_description = Def None, board_color = Def ''primary'',
                       board_createdBy = Def 1, board_createdAt = Def 1000 \<rparr>),
                 (2, \<lparr> board_id = Def 2, board_title = Def ''Roadmap'',
                       board_description = Def (Some ''Q3''), board_color = Def ''accent'',
                       board_createdBy = Def 1, board_createdAt = Def 3000 \<rparr>)],
       boardMembers = [(1, \<lparr> member_id = 1, member_boardId = 1, member_userId = 1,
                             member_role = ''admin'' \<rparr>),
                       (2, \<lparr> member_id = 2, member_boardId = 2, member_userId = 1,
                             member_role = ''admin'' \<rparr>)],
       todos = [(1, \<lparr> todo_id = 1, todo_boardId = 1, todo_title = ''Write spec'',
                      todo_description = None, todo_dueDate = None, todo_priority = ''medium'',
                      todo_status = ''todo'', todo_assignedTo = None, todo_createdBy = 1,
                      todo_createdAt = 2000, todo_updatedAt = 2000 \<rparr>),
                (2, \<lparr> todo_id = 2, todo_boardId = 2, todo_title = ''Draft roadmap'',
                      todo_description = None, todo_dueDate = None, todo_priority = ''medium'',
                      todo_status = ''todo'', todo_assignedTo = None, todo_createdBy = 1,
                      todo_createdAt = 4000, todo_updatedAt = 4000 \<rparr>)],
       currentUserId = 2, currentBoardId = 3, currentBoardMemberId = 3, currentTodoId = 3 \<rparr>"
  by (simp add: two_boards_def perform_all_def scenario_value createBoard_def createTodo_def
      addBoardMember_def write_spec_def Let_def string_or_def string_or_null_def
      number_or_null_def date_or_null_def Map_values_def)

theorem deleteBoard_frame_witness:
  "reachable scenario
   \<and> getBoard scenario 2 = None \<and> snd (deleteBoard scenario 2) = scenario
   \<and> getBoard scenario 1 \<noteq> None
   \<and> reachable two_boards \<and> getBoard two_boards 1 \<noteq> None
   \<and> users (snd (deleteBoard two_boards 1)) = users two_boards
   \<and> map fst (boards (snd (deleteBoard two_boards 1))) = [2]
   \<and> getBoard (snd (deleteBoard two_boards 1)) 2 = getBoard two_boards 2
   \<and> boardMembers (snd (deleteBoard two_boards 1))
        = [(2, \<lparr> member_id = 2, member_boardId = 2, member_userId = 1, member_role = ''admin'' \<rparr>)]
   \<and> map fst (todos (snd (deleteBoard two_boards 1))) = [2]
   \<and> getTodo (snd (deleteBoard two_boards 1)) 2 = getTodo two_boards 2
   \<and> users (snd (deleteBoard scenario 1)) = users scenario
   \<and> boards (snd (deleteBoard scenario 1)) = filter (\<lambda>e. fst e \<noteq> 1) (boards scenario)
   \<and> boardMembers (snd (deleteBoard scenario 1))
        = filter (\<lambda>e. member_boardId (snd e) \<noteq> 1) (boardMembers scenario)
   \<and> todos (snd (deleteBoard scenario 1))
        = filter (\<lambda>e. todo_boardId (snd e) \<noteq> 1) (todos scenario)"
proof -
  have p: "getBoard scenario 1 \<noteq> None"
    by (simp add: scenario_value getBoard_def Map_get_def)
  have a: "getBoard scenario 2 = None"
    by (simp add: scenario_value getBoard_def Map_get_def)
  have q: "getBoard two_boards 1 \<noteq> None"
    by (simp add: two_boards_value getBoard_def Map_get_def)
  have two: "users (snd (deleteBoard two_boards 1)) = users two_boards
     \<and> map fst (boards (snd (deleteBoard two_boards 1))) = [2]
     \<and> getBoard (snd (deleteBoard two_boards 1)) 2 = getBoard two_boards 2
     \<and> boardMembers (snd (deleteBoard two_boards 1))
          = [(2, \<lparr> member_id = 2, member_boardId = 2, member_userId = 1, member_role = ''admin'' \<rparr>)]
     \<and> map fst (todos (snd (deleteBoard two_boards 1))) = [2]
     \<and> getTodo (snd (deleteBoard two_boards 1)) 2 = getTodo two_boards 2"
    using q deleteBoard_frame[OF reachable_two_boards, of 1]
    by (simp add: two_boards_value getTodo_def Map_get_def)
  from a p q two reachable_scenario reachable_two_boards
    deleteBoard_frame[OF reachable_scenario, of 1]
    deleteBoard_frame[OF reachable_scenario, of 2]
  show ?thesis by simp
qed


subsection \<open>addBoardMember\<close>

lemma find_append_if:
  "find P (xs @ ys) = (case find P xs of None \<Rightarrow> find P ys | Some x \<Rightarrow> Some x)"
  by (induction xs) auto

lemma filter_by_distinct_key:
  "distinct (map g xs) \<Longrightarrow>
     filter (\<lambda>x. g x = y) xs = (case find (\<lambda>x. g x = y) xs of None \<Rightarrow> [] | Some e \<Rightarrow> [e])"
proof (induction xs)
  case Nil
  then show ?case by simp
next
  case (Cons x xs)
  show ?case
  proof (cases "g x = y")
    case True
    from Cons.prems have "g x \<notin> g ` set xs" by simp
    with True have "\<forall>z \<in> set xs. g z \<noteq> y" by blast
    then have "filter (\<lambda>x. g x = y) xs = []" by (simp add: filter_empty_conv)
    with True show ?thesis by simp
  next
    case False
    with Cons show ?thesis by simp
  qed
qed

lemma memberships_of_find:
  assumes "store_inv s"
  shows "memberships_of s B A =
     (case find (\<lambda>member. member_boardId member = B \<and> member_userId member = A)
             (Map_values (boardMembers s)) of None \<Rightarrow> [] | Some e \<Rightarrow> [e])"
proof -
  have "map (\<lambda>member. (member_boardId member, member_userId member)) (Map_values (boardMembers s))
          = map member_pair (boardMembers s)"
    by (simp add: Map_values_def member_pair_def)
  with assms have
    "distinct (map (\<lambda>member. (member_boardId member, member_userId member))
        (Map_values (boardMembers s)))"
    by (simp add: store_inv_def)
  from filter_by_distinct_key[OF this, of "(B, A)"] show ?thesis
    by (simp add: memberships_of_def)
qed

lemma addBoardMember_found:
  "find (\<lambda>member. member_boardId member = im_boardId ins \<and> member_userId member = im_userId ins)
        (Map_values (boardMembers s)) = Some e
   \<Longrightarrow> addBoardMember s ins = (e, s)"
  by (simp add: addBoardMember_def)

lemma addBoardMember_not_found:
  assumes "find (\<lambda>member. member_boardId member = im_boardId ins
                          \<and> member_userId member = im_userId ins)
             (Map_values (boardMembers s)) = None"
    and "store_inv s"
  shows "fst (addBoardMember s ins) =
           \<lparr> member_id = currentBoardMemberId s, member_boardId = im_boardId ins,
             member_userId = im_userId ins, member_role = string_or (im_role ins) ''editor'' \<rparr>"
    and "snd (addBoardMember s ins) =
           s\<lparr> currentBoardMemberId := currentBoardMemberId s + 1,
              boardMembers := boardMembers s @ [(currentBoardMemberId s, fst (addBoardMember s ins))] \<rparr>"
proof -
  from assms(2) have "currentBoardMemberId s \<notin> set (map fst (boardMembers s))"
    by (intro keys_below_fresh) (simp add: store_inv_def)
  from Map_set_new[OF this] assms(1)
  show "fst (addBoardMember s ins) =
           \<lparr> member_id = currentBoardMemberId s, member_boardId = im_boardId ins,
             member_userId = im_userId ins, member_role = string_or (im_role ins) ''editor'' \<rparr>"
    and "snd (addBoardMember s ins) =
           s\<lparr> currentBoardMemberId := currentBoardMemberId s + 1,
              boardMembers := boardMembers s @ [(currentBoardMemberId s, fst (addBoardMember s ins))] \<rparr>"
    by (simp_all add: addBoardMember_def Let_def)
qed

lemma addBoardMember_then_found:
  assumes "store_inv s"
  shows "find (\<lambda>member. member_boardId member = im_boardId ins
                        \<and> member_userId member = im_userId ins)
           (Map_values (boardMembers (snd (addBoardMember s ins))))
         = Some (fst (addBoardMember s ins))"
proof (cases "find (\<lambda>member. member_boardId member = im_boardId ins
                          \<and> member_userId member = im_userId ins)
                (Map_values (boardMembers s))")
  case None
  from addBoardMember_not_found[OF None assms] None show ?thesis
    by (simp add: Map_values_def find_append_if)
next
  case (Some e)
  then show ?thesis by (simp add: addBoardMember_found)
qed

text \<open>
  Claim C2. In every reachable store there is at most one membership for a pair of board
  \<open>B\<close> and account \<open>A\<close>. Calling \<open>addBoardMember\<close> for the pair with role \<open>r1\<close> and then
  again with any role \<open>r2\<close>: the second call returns the membership the first call
  returned and changes nothing, and that membership is then the only one for the pair.
  When the first call found no membership for the pair, the membership carries the first
  call's role: \<open>r1\<close> itself when it is a non-empty string, and the default \<open>editor\<close> when
  the role is unset.
\<close>

theorem addBoardMember_idempotent:
  assumes "reachable s"
  shows "length (memberships_of s B A) \<le> 1
   \<and> addBoardMember (snd (addBoardMember s \<lparr> im_boardId = B, im_userId = A, im_role = r1 \<rparr>))
         \<lparr> im_boardId = B, im_userId = A, im_role = r2 \<rparr>
       = addBoardMember s \<lparr> im_boardId = B, im_userId = A, im_role = r1 \<rparr>
   \<and> memberships_of (snd (addBoardMember s \<lparr> im_boardId = B, im_userId = A, im_role = r1 \<rparr>)) B A
       = [fst (addBoardMember s \<lparr> im_boardId = B, im_userId = A, im_role = r1 \<rparr>)]
   \<and> (memberships_of s B A = [] \<longrightarrow>
        member_role (fst (addBoardMember s \<lparr> im_boardId = B, im_userId = A, im_role = r1 \<rparr>))
          = (case r1 of Val r \<Rightarrow> (if r = [] then ''editor'' else r) | _ \<Rightarrow> ''editor''))"
proof -
  let ?ins1 = "\<lparr> im_boardId = B, im_userId = A, im_role = r1 \<rparr>"
  let ?ins2 = "\<lparr> im_boardId = B, im_userId = A, im_role = r2 \<rparr>"
  let ?m1 = "fst (addBoardMember s ?ins1)"
  let ?s1 = "snd (addBoardMember s ?ins1)"
  from assms have inv: "store_inv s" by (rule reachable_store_inv)
  then have inv1: "store_inv ?s1" by (rule store_inv_addBoardMember)
  have one: "length (memberships_of s B A) \<le> 1"
    by (simp add: memberships_of_find[OF inv] split: option.splits)
  from addBoardMember_then_found[OF inv, of ?ins1]
  have found: "find (\<lambda>member. member_boardId member = B \<and> member_userId member = A)
                 (Map_values (boardMembers ?s1)) = Some ?m1"
    by simp
  then have again: "addBoardMember ?s1 ?ins2 = addBoardMember s ?ins1"
    by (simp add: addBoardMember_found)
  from found have only: "memberships_of ?s1 B A = [?m1]"
    by (simp add: memberships_of_find[OF inv1])
  have role: "memberships_of s B A = [] \<longrightarrow>
        member_role ?m1 = (case r1 of Val r \<Rightarrow> (if r = [] then ''editor'' else r) | _ \<Rightarrow> ''editor'')"
  proof
    assume "memberships_of s B A = []"
    then have "find (\<lambda>member. member_boardId member = im_boardId ?ins1
                          \<and> member_userId member = im_userId ?ins1)
                 (Map_values (boardMembers s)) = None"
      by (simp add: memberships_of_find[OF inv] split: option.splits)
    from addBoardMember_not_found(1)[OF this inv]
    show "member_role ?m1 = (case r1 of Val r \<Rightarrow> (if r = [] then ''editor'' else r) | _ \<Rightarrow> ''editor'')"
      by (simp add: string_or_def)
  qed
  from one again only role show ?thesis by blast
qed

theorem addBoardMember_idempotent_witness:
  "reachable scenario \<and> memberships_of scenario 1 5 = []
   \<and> addBoardMember (snd (addBoardMember scenario
                             \<lparr> im_boardId = 1, im_userId = 5, im_role = Val ''viewer'' \<rparr>))
         \<lparr> im_boardId = 1, im_userId = 5, im_role = Val ''admin'' \<rparr>
       = addBoardMember scenario \<lparr> im_boardId = 1, im_userId = 5, im_role = Val ''viewer'' \<rparr>
   \<and> memberships_of (snd (addBoardMember scenario
                             \<lparr> im_boardId = 1, im_userId = 5, im_role = Val ''viewer'' \<rparr>)) 1 5
       = [fst (addBoardMember scenario \<lparr> im_boardId = 1, im_userId = 5, im_role = Val ''viewer'' \<rparr>)]
   \<and> member_role (fst (addBoardMember scenario
                          \<lparr> im_boardId = 1, im_userId = 5, im_role = Val ''viewer'' \<rparr>)) = ''viewer''"
proof -
  have e: "memberships_of scenario 1 5 = []"
    by (simp add: scenario_value memberships_of_def Map_values_def)
  from e reachable_scenario
    addBoardMember_idempotent[OF reachable_scenario, of 1 5 "Val ''viewer''" "Val ''admin''"]
  show ?thesis by simp
qed


subsection \<open>createBoard\<close>

lemma createBoard_board:
  "fst (createBoard s ins now) =
     \<lparr> board_id = Def (currentBoardId s), board_title = Def (ib_title ins),
       board_description = Def (string_or_null (ib_description ins)),
       board_color = Def (string_or (ib_color ins) ''primary''),
       board_createdBy = Def (ib_createdBy ins), board_createdAt = Def now \<rparr>"
  by (simp add: createBoard_def Let_def split_beta)

lemma createBoard_store:
  "snd (createBoard s ins now) =
     snd (addBoardMember
            (s\<lparr> currentBoardId := currentBoardId s + 1,
                boards := Map_set (boards s) (currentBoardId s) (fst (createBoard s ins now)) \<rparr>)
            \<lparr> im_boardId = currentBoardId s, im_userId = ib_createdBy ins,
              im_role = Val ''admin'' \<rparr>)"
  by (simp add: createBoard_def Let_def split_beta)

lemma addBoardMember_others:
  "users (snd (addBoardMember s ins)) = users s
   \<and> boards (snd (addBoardMember s ins)) = boards s
   \<and> todos (snd (addBoardMember s ins)) = todos s
   \<and> currentUserId (snd (addBoardMember s ins)) = currentUserId s
   \<and> currentBoardId (snd (addBoardMember s ins)) = currentBoardId s
   \<and> currentTodoId (snd (addBoardMember s ins)) = currentTodoId s"
  by (simp add: addBoardMember_def Let_def split: option.splits)

text \<open>
  What \<open>createBoard\<close> does in every reachable store. The board it returns has the board
  counter's value as handle, a handle no stored board has, and the counter moves past it.
  The board has the call's clock reading as \<open>createdAt\<close>, the given title and creator,
  the colour \<open>primary\<close> when the colour is unset, null or empty, and no description when
  the description is unset, null or empty. In the store after the call the board is found
  under its handle, and there is exactly one membership for the new board and the creator:
  a new one with role \<open>admin\<close> when the store held none for the pair, and otherwise the
  membership \<open>addBoardMember\<close> found, with the memberships unchanged. Accounts and todos
  are unchanged.
\<close>

lemma createBoard_bootstrap:
  assumes "reachable s"
  shows "board_id (fst (createBoard s ins now)) = Def (currentBoardId s)
   \<and> getBoard s (currentBoardId s) = None
   \<and> currentBoardId (snd (createBoard s ins now)) = currentBoardId s + 1
   \<and> board_createdAt (fst (createBoard s ins now)) = Def now
   \<and> board_title (fst (createBoard s ins now)) = Def (ib_title ins)
   \<and> board_createdBy (fst (createBoard s ins now)) = Def (ib_createdBy ins)
   \<and> (ib_color ins = Undefined \<or> ib_color ins = Null \<or> ib_color ins = Val [] \<longrightarrow>
        board_color (fst (createBoard s ins now)) = Def ''primary'')
   \<and> (\<forall>c. ib_color ins = Val c \<and> c \<noteq> [] \<longrightarrow>
          board_color (fst (createBoard s ins now)) = Def c)
   \<and> (ib_description ins = Undefined \<or> ib_description ins = Null \<or> ib_description ins = Val [] \<longrightarrow>
        board_description (fst (createBoard s ins now)) = Def None)
   \<and> (\<forall>d. ib_description ins = Val d \<and> d \<noteq> [] \<longrightarrow>
          board_description (fst (createBoard s ins now)) = Def (Some d))
   \<and> getBoard (snd (createBoard s ins now)) (currentBoardId s) = Some (fst (createBoard s ins now))
   \<and> boards (snd (createBoard s ins now))
        = boards s @ [(currentBoardId s, fst (createBoard s ins now))]
   \<and> length (memberships_of (snd (createBoard s ins now)) (currentBoardId s) (ib_createdBy ins)) = 1
   \<and> (memberships_of s (currentBoardId s) (ib_createdBy ins) = [] \<longrightarrow>
        memberships_of (snd (createBoard s ins now)) (currentBoardId s) (ib_createdBy ins)
          = [\<lparr> member_id = currentBoardMemberId s, member_boardId = currentBoardId s,
               member_userId = ib_createdBy ins, member_role = ''admin'' \<rparr>]
        \<and> boardMembers (snd (createBoard s ins now))
          = boardMembers s @ [(currentBoardMemberId s,
               \<lparr> member_id = currentBoardMemberId s, member_boardId = currentBoardId s,
                 member_userId = ib_createdBy ins, member_role = ''admin'' \<rparr>)])
   \<and> (memberships_of s (currentBoardId s) (ib_createdBy ins) \<noteq> [] \<longrightarrow>
        boardMembers (snd (createBoard s ins now)) = boardMembers s)
   \<and> users (snd (createBoard s ins now)) = users s
   \<and> todos (snd (createBoard s ins now)) = todos s"
proof -
  let ?i = "currentBoardId s"
  let ?b = "fst (createBoard s ins now)"
  let ?s2 = "s\<lparr> currentBoardId := ?i + 1, boards := Map_set (boards s) ?i ?b \<rparr>"
  let ?mi = "\<lparr> im_boardId = ?i, im_userId = ib_createdBy ins, im_role = Val ''admin'' \<rparr>"
  let ?s' = "snd (createBoard s ins now)"
  from assms have inv: "store_inv s" by (rule reachable_store_inv)
  then have fresh: "?i \<notin> set (map fst (boards s))"
    by (intro keys_below_fresh) (simp add: store_inv_def)
  then have absent: "getBoard s ?i = None"
    by (simp add: getBoard_def Map_get_None_iff Map_has_def)
  have s': "?s' = snd (addBoardMember ?s2 ?mi)" by (rule createBoard_store)
  from inv have inv2: "store_inv ?s2"
    by (intro store_inv_boards_update)
      (simp_all add: store_inv_def distinct_Map_set keys_below_Map_set_counter)
  then have inv': "store_inv ?s'" unfolding s' by (rule store_inv_addBoardMember)
  have bs: "boards ?s' = boards s @ [(?i, ?b)]"
    unfolding s' using addBoardMember_others[of ?s2 ?mi] Map_set_new[OF fresh] by simp
  have cnt: "currentBoardId ?s' = ?i + 1"
    unfolding s' using addBoardMember_others[of ?s2 ?mi] by simp
  have rest: "users ?s' = users s \<and> todos ?s' = todos s"
    unfolding s' using addBoardMember_others[of ?s2 ?mi] by simp
  have "boards ?s' = Map_set (boards s) ?i ?b"
    unfolding s' using addBoardMember_others[of ?s2 ?mi] by simp
  then have get: "getBoard ?s' ?i = Some ?b"
    by (simp add: getBoard_def Map_get_Map_set)
  have same: "memberships_of ?s2 ?i (ib_createdBy ins) = memberships_of s ?i (ib_createdBy ins)"
    by (simp add: memberships_of_def)
  from addBoardMember_then_found[OF inv2, of ?mi]
  have "memberships_of ?s' ?i (ib_createdBy ins) = [fst (addBoardMember ?s2 ?mi)]"
    unfolding s' by (simp add: memberships_of_find[OF inv'[unfolded s']])
  then have one: "length (memberships_of ?s' ?i (ib_createdBy ins)) = 1" by simp
  have new: "memberships_of s ?i (ib_createdBy ins) = [] \<longrightarrow>
        memberships_of ?s' ?i (ib_createdBy ins)
          = [\<lparr> member_id = currentBoardMemberId s, member_boardId = ?i,
               member_userId = ib_createdBy ins, member_role = ''admin'' \<rparr>]
        \<and> boardMembers ?s'
          = boardMembers s @ [(currentBoardMemberId s,
               \<lparr> member_id = currentBoardMemberId s, member_boardId = ?i,
                 member_userId = ib_createdBy ins, member_role = ''admin'' \<rparr>)]"
  proof
    assume "memberships_of s ?i (ib_createdBy ins) = []"
    with same have "find (\<lambda>member. member_boardId member = im_boardId ?mi
                          \<and> member_userId member = im_userId ?mi)
                 (Map_values (boardMembers ?s2)) = None"
      by (simp add: memberships_of_find[OF inv2] split: option.splits)
    from addBoardMember_not_found[OF this inv2]
      \<open>memberships_of ?s' ?i (ib_createdBy ins) = [fst (addBoardMember ?s2 ?mi)]\<close>
    show "memberships_of ?s' ?i (ib_createdBy ins)
          = [\<lparr> member_id = currentBoardMemberId s, member_boardId = ?i,
               member_userId = ib_createdBy ins, member_role = ''admin'' \<rparr>]
        \<and> boardMembers ?s'
          = boardMembers s @ [(currentBoardMemberId s,
               \<lparr> member_id = currentBoardMemberId s, member_boardId = ?i,
                 member_userId = ib_createdBy ins, member_role = ''admin'' \<rparr>)]"
      unfolding s' by (simp add: string_or_def)
  qed
  have old: "memberships_of s ?i (ib_createdBy ins) \<noteq> [] \<longrightarrow> boardMembers ?s' = boardMembers s"
  proof
    assume "memberships_of s ?i (ib_createdBy ins) \<noteq> []"
    with same obtain e where "find (\<lambda>member. member_boardId member = im_boardId ?mi
                          \<and> member_userId member = im_userId ?mi)
                 (Map_values (boardMembers ?s2)) = Some e"
      by (auto simp: memberships_of_find[OF inv2] split: option.splits)
    from addBoardMember_found[OF this] show "boardMembers ?s' = boardMembers s"
      unfolding s' by simp
  qed
  have fields: "board_id ?b = Def ?i \<and> board_createdAt ?b = Def now
      \<and> board_title ?b = Def (ib_title ins)
      \<and> board_createdBy ?b = Def (ib_createdBy ins)
      \<and> (ib_color ins = Undefined \<or> ib_color ins = Null \<or> ib_color ins = Val [] \<longrightarrow>
            board_color ?b = Def ''primary'')
      \<and> (\<forall>c. ib_color ins = Val c \<and> c \<noteq> [] \<longrightarrow> board_color ?b = Def c)
      \<and> (ib_description ins = Undefined \<or> ib_description ins = Null \<or> ib_description ins = Val []
            \<longrightarrow> board_description ?b = Def None)
      \<and> (\<forall>d. ib_description ins = Val d \<and> d \<noteq> [] \<longrightarrow> board_description ?b = Def (Some d))"
    by (auto simp: createBoard_board string_or_def string_or_null_def)
  from fields absent cnt get bs one new old rest show ?thesis by blast
qed

text \<open>
  In a reachable store whose memberships are all on stored boards, no membership is on the
  next board handle. There \<open>createBoard\<close> does create the creator's membership with role
  \<open>admin\<close>, and the store it leaves holds the board and that membership together, for every
  read that follows.
\<close>

lemma createBoard_admin_when_memberships_on_boards:
  assumes r: "reachable s"
    and on_boards: "\<And>member. member \<in> set (Map_values (boardMembers s)) \<Longrightarrow>
                      Map_has (boards s) (member_boardId member)"
  shows "getBoard (snd (createBoard s ins now)) (currentBoardId s) = Some (fst (createBoard s ins now))
   \<and> memberships_of (snd (createBoard s ins now)) (currentBoardId s) (ib_createdBy ins)
        = [\<lparr> member_id = currentBoardMemberId s, member_boardId = currentBoardId s,
             member_userId = ib_createdBy ins, member_role = ''admin'' \<rparr>]
   \<and> getBoardMembers (snd (createBoard s ins now)) (currentBoardId s)
        = [\<lparr> member_id = currentBoardMemberId s, member_boardId = currentBoardId s,
             member_userId = ib_createdBy ins, member_role = ''admin'' \<rparr>]"
proof -
  let ?i = "currentBoardId s"
  let ?m = "\<lparr> member_id = currentBoardMemberId s, member_boardId = ?i,
             member_userId = ib_createdBy ins, member_role = ''admin'' \<rparr>"
  from r have "store_inv s" by (rule reachable_store_inv)
  then have "?i \<notin> set (map fst (boards s))"
    by (intro keys_below_fresh) (simp add: store_inv_def)
  then have nokey: "\<not> Map_has (boards s) ?i" by (simp add: Map_has_def)
  have none: "\<forall>member \<in> set (Map_values (boardMembers s)). member_boardId member \<noteq> ?i"
  proof
    fix member assume m: "member \<in> set (Map_values (boardMembers s))"
    show "member_boardId member \<noteq> ?i"
    proof
      assume "member_boardId member = ?i"
      with on_boards[OF m] nokey show False by simp
    qed
  qed
  then have empty: "memberships_of s ?i (ib_createdBy ins) = []"
    by (simp add: memberships_of_def filter_empty_conv)
  from none have before: "getBoardMembers s ?i = []"
    by (simp add: getBoardMembers_def filter_empty_conv)
  from createBoard_bootstrap[OF r, of ins now] empty
  have get: "getBoard (snd (createBoard s ins now)) ?i = Some (fst (createBoard s ins now))"
    and ms: "memberships_of (snd (createBoard s ins now)) ?i (ib_createdBy ins) = [?m]"
    and bm: "boardMembers (snd (createBoard s ins now)) = boardMembers s @ [(currentBoardMemberId s, ?m)]"
    by blast+
  from before have "getBoardMembers (snd (createBoard s ins now)) ?i = [?m]"
    by (simp add: getBoardMembers_def Map_values_def bm)
  with get ms show ?thesis by blast
qed

lemma reachable_early_member: "reachable early_member"
  unfolding early_member_def by (rule reachable.call) (rule reachable.new)

lemma early_member_value:
  "early_member =
     \<lparr> users = [], boards = [],
       boardMembers = [(1, \<lparr> member_id = 1, member_boardId = 1, member_userId = 1,
                             member_role = ''viewer'' \<rparr>)],
       todos = [],
       currentUserId = 1, currentBoardId = 1, currentBoardMemberId = 2, currentTodoId = 1 \<rparr>"
  by (simp add: early_member_def addBoardMember_def MemStorage_new_def Let_def string_or_def
      Map_values_def)

text \<open>The scenario has every membership on a stored board, and the next board gets its admin.\<close>

lemma createBoard_admin_in_scenario:
  "reachable scenario
   \<and> getBoard (snd (createBoard scenario launch_plan 3000)) 2
        = Some (fst (createBoard scenario launch_plan 3000))
   \<and> getBoardMembers (snd (createBoard scenario launch_plan 3000)) 2
        = [\<lparr> member_id = 2, member_boardId = 2, member_userId = 1, member_role = ''admin'' \<rparr>]"
proof -
  have on: "\<And>member. member \<in> set (Map_values (boardMembers scenario)) \<Longrightarrow>
              Map_has (boards scenario) (member_boardId member)"
    by (simp add: scenario_value Map_values_def Map_has_def)
  have c: "currentBoardId scenario = 2" "currentBoardMemberId scenario = 2"
    "ib_createdBy launch_plan = 1"
    by (simp_all add: scenario_value launch_plan_def)
  from createBoard_admin_when_memberships_on_boards[OF reachable_scenario on, of launch_plan 3000]
    c reachable_scenario
  show ?thesis by simp
qed

text \<open>
  Claim C3 fails on the code. The claim has every \<open>createBoard\<close> call create a membership
  for the new board and the creator with role \<open>admin\<close>, and the source announces the same:
  "Automatically add the creator as an admin member". The store \<open>early_member\<close> is reached
  by \<open>addBoardMember {boardId: 1, userId: 1, role: viewer}\<close> on a new store, where no board
  exists. Creating a board for creator 1 there returns the board with handle 1, and the
  membership table after the call is the one row it held before, with role \<open>viewer\<close>: no
  membership was created, and the creator is not an admin of the board.
\<close>

theorem createBoard_early_membership:
  "reachable early_member
   \<and> boards early_member = []
   \<and> board_id (fst (createBoard early_member launch_plan 1000)) = Def 1
   \<and> board_createdBy (fst (createBoard early_member launch_plan 1000)) = Def 1
   \<and> getBoard (snd (createBoard early_member launch_plan 1000)) 1
        = Some (fst (createBoard early_member launch_plan 1000))
   \<and> Map_values (boardMembers (snd (createBoard early_member launch_plan 1000)))
        = [\<lparr> member_id = 1, member_boardId = 1, member_userId = 1, member_role = ''viewer'' \<rparr>]
   \<and> getBoardMembers (snd (createBoard early_member launch_plan 1000)) 1
        = [\<lparr> member_id = 1, member_boardId = 1, member_userId = 1, member_role = ''viewer'' \<rparr>]"
  using reachable_early_member
  by (simp add: early_member_value createBoard_def addBoardMember_def launch_plan_def Let_def
      string_or_def string_or_null_def Map_values_def getBoard_def Map_get_def getBoardMembers_def)

subsection \<open>Handles\<close>

lemma counter_createUser:
  "counter K (snd (createUser s ins)) = (if K = Account then counter K s + 1 else counter K s)"
  by (cases K) (simp_all add: counter_def createUser_def Let_def)

lemma counter_createTodo:
  "counter K (snd (createTodo s ins now)) = (if K = TodoKind then counter K s + 1 else counter K s)"
  by (cases K) (simp_all add: counter_def createTodo_def Let_def)

lemma counter_addBoardMember:
  "counter K (snd (addBoardMember s ins)) =
     (if K = Membership \<and> addBoardMember_assigned s ins \<noteq> [] then counter K s + 1 else counter K s)"
  by (cases K)
    (simp_all add: counter_def addBoardMember_def addBoardMember_assigned_def Let_def
      split: option.splits)

lemma addBoardMember_assigned_boards:
  "addBoardMember_assigned (s\<lparr>currentBoardId := c, boards := b\<rparr>) ins = addBoardMember_assigned s ins"
  by (simp add: addBoardMember_assigned_def addBoardMember_def Let_def split: option.splits)

lemma counter_createBoard:
  "counter K (snd (createBoard s ins now)) =
     (if K = BoardKind then counter K s + 1
      else if K = Membership \<and> addBoardMember_assigned s
              \<lparr> im_boardId = currentBoardId s, im_userId = ib_createdBy ins,
                im_role = Val ''admin'' \<rparr> \<noteq> []
      then counter K s + 1 else counter K s)"
  unfolding createBoard_store counter_addBoardMember addBoardMember_assigned_boards
  by (cases K) (simp_all add: counter_def)

lemma counter_others:
  "counter K (snd (updateBoard s i ub)) = counter K s"
  "counter K (snd (deleteBoard s i)) = counter K s"
  "counter K (snd (removeBoardMember s b u)) = counter K s"
  "counter K (snd (updateBoardMemberRole s b u r)) = counter K s"
  "counter K (snd (updateTodo s i ut now)) = counter K s"
  "counter K (snd (deleteTodo s i)) = counter K s"
  by (cases K; simp add: counter_def updateBoard_def deleteBoard_def removeBoardMember_def
      updateBoardMemberRole_def updateTodo_def deleteTodo_def Let_def split_beta
      split: option.splits)+

lemma addBoardMember_assigned_cases:
  "addBoardMember_assigned s ins = [] \<or> addBoardMember_assigned s ins = [(Membership, counter Membership s)]"
  by (simp add: addBoardMember_assigned_def addBoardMember_def counter_def Let_def
      split: option.splits)

lemma handles_of_addBoardMember_assigned:
  "handles_of K (addBoardMember_assigned s ins) =
     (if K = Membership \<and> addBoardMember_assigned s ins \<noteq> [] then [counter K s] else [])"
  using addBoardMember_assigned_cases[of s ins] by (auto simp: handles_of_def)

lemma handles_of_assigned:
  "handles_of K (assigned s c) = [] \<and> counter K (perform s c) = counter K s
   \<or> handles_of K (assigned s c) = [counter K s] \<and> counter K (perform s c) = counter K s + 1"
proof (cases c)
  case (CreateUser ins)
  have "user_id (fst (createUser s ins)) = counter Account s"
    by (simp add: createUser_def Let_def counter_def)
  with CreateUser show ?thesis
    by (simp add: handles_of_def counter_createUser)
next
  case (CreateBoard ins now)
  let ?mi = "\<lparr> im_boardId = currentBoardId s, im_userId = ib_createdBy ins,
              im_role = Val ''admin'' \<rparr>"
  have "board_id (fst (createBoard s ins now)) = Def (counter BoardKind s)"
    by (simp add: createBoard_board counter_def)
  then have "handles_of K (assigned s c) =
      (if K = BoardKind then [counter K s] else []) @ handles_of K (addBoardMember_assigned s ?mi)"
    using CreateBoard by (simp add: handles_of_def)
  with CreateBoard show ?thesis
    by (simp add: handles_of_addBoardMember_assigned counter_createBoard)
next
  case (AddBoardMember ins)
  then show ?thesis
    by (simp add: handles_of_addBoardMember_assigned counter_addBoardMember)
next
  case (CreateTodo ins now)
  have "todo_id (fst (createTodo s ins now)) = counter TodoKind s"
    by (simp add: createTodo_def Let_def counter_def)
  with CreateTodo show ?thesis
    by (simp add: handles_of_def counter_createTodo)
qed (simp_all add: handles_of_def counter_others)

lemma handles_of_append: "handles_of K (xs @ ys) = handles_of K xs @ handles_of K ys"
  by (simp add: handles_of_def)

lemma assigned_all_bounds:
  "sorted_wrt (<) (handles_of K (assigned_all s cs))
   \<and> (\<forall>h \<in> set (handles_of K (assigned_all s cs)).
         counter K s \<le> h \<and> h < counter K (perform_all s cs))
   \<and> counter K s \<le> counter K (perform_all s cs)"
proof (induction cs arbitrary: s)
  case Nil
  then show ?case by (simp add: handles_of_def perform_all_def)
next
  case (Cons c cs)
  have pa: "perform_all s (c # cs) = perform_all (perform s c) cs"
    by (simp add: perform_all_def)
  from Cons.IH[of "perform s c"] handles_of_assigned[of K s c]
  show ?case
    unfolding pa assigned_all.simps handles_of_append
    by (fastforce simp: sorted_wrt_append)
qed

lemma handles_in_below: "store_inv s \<Longrightarrow> h \<in> set (handles_in K s) \<Longrightarrow> h < counter K s"
  by (cases K) (auto simp: store_inv_def keys_below_def handles_in_def counter_def)

text \<open>
  Claim C4. In a run of any calls from any store, the handles given to new entities of
  one kind are strictly increasing in the order they are given, whatever updates and
  deletions come in between; so no handle is given twice. In a reachable store they all
  lie at or above the counter, above every handle a stored entity holds. Each handle given
  is the value of the kind's counter at that moment, and no call lowers a counter.
\<close>

theorem handles_strictly_increasing:
  "sorted_wrt (<) (handles_of K (assigned_all s cs))
   \<and> distinct (handles_of K (assigned_all s cs))
   \<and> (\<forall>h \<in> set (handles_of K (assigned_all s cs)). counter K s \<le> h)
   \<and> counter K s \<le> counter K (perform_all s cs)
   \<and> (reachable s \<longrightarrow>
        (\<forall>h \<in> set (handles_of K (assigned_all s cs)). h \<notin> set (handles_in K s)))"
proof -
  from assigned_all_bounds[of K s cs]
  have a: "sorted_wrt (<) (handles_of K (assigned_all s cs))"
    and b: "\<forall>h \<in> set (handles_of K (assigned_all s cs)). counter K s \<le> h"
    and c: "counter K s \<le> counter K (perform_all s cs)"
    by blast+
  from a have d: "distinct (handles_of K (assigned_all s cs))"
    by (simp add: strict_sorted_iff)
  have e: "reachable s \<longrightarrow> (\<forall>h \<in> set (handles_of K (assigned_all s cs)). h \<notin> set (handles_in K s))"
  proof (intro impI ballI)
    fix h assume "reachable s" and h: "h \<in> set (handles_of K (assigned_all s cs))"
    then have "store_inv s" by (simp add: reachable_store_inv)
    from handles_in_below[OF this, of h K] b h
    show "h \<notin> set (handles_in K s)" by fastforce
  qed
  from a b c d e show ?thesis by blast
qed

theorem handles_strictly_increasing_witness:
  "reachable scenario
   \<and> handles_in TodoKind scenario = [1]
   \<and> handles_of TodoKind (assigned_all scenario
          [DeleteTodo 1, CreateTodo write_spec 3000, DeleteTodo 2, CreateTodo write_spec 4000]) = [2, 3]
   \<and> sorted_wrt (<) (handles_of TodoKind (assigned_all scenario
          [DeleteTodo 1, CreateTodo write_spec 3000, DeleteTodo 2, CreateTodo write_spec 4000]))
   \<and> set (handles_of TodoKind (assigned_all scenario
          [DeleteTodo 1, CreateTodo write_spec 3000, DeleteTodo 2, CreateTodo write_spec 4000]))
       \<inter> set (handles_in TodoKind scenario) = {}"
proof -
  have ev: "handles_in TodoKind scenario = [1]"
    "handles_of TodoKind (assigned_all scenario
          [DeleteTodo 1, CreateTodo write_spec 3000, DeleteTodo 2, CreateTodo write_spec 4000]) = [2, 3]"
    by (simp_all add: scenario_value handles_in_def handles_of_def deleteTodo_def createTodo_def
        Let_def Map_delete_def)
  have th: "sorted_wrt (<) (handles_of TodoKind (assigned_all scenario
          [DeleteTodo 1, CreateTodo write_spec 3000, DeleteTodo 2, CreateTodo write_spec 4000]))
   \<and> set (handles_of TodoKind (assigned_all scenario
          [DeleteTodo 1, CreateTodo write_spec 3000, DeleteTodo 2, CreateTodo write_spec 4000]))
       \<inter> set (handles_in TodoKind scenario) = {}"
    using reachable_scenario
      handles_strictly_increasing[of TodoKind scenario
        "[DeleteTodo 1, CreateTodo write_spec 3000, DeleteTodo 2, CreateTodo write_spec 4000]"]
    by blast
  from ev th reachable_scenario show ?thesis by blast
qed


subsection \<open>updateTodo\<close>

text \<open>
  Claim C6, as the code has it. For every existing todo, every \<open>updateTodo\<close> call returns
  the updated todo, stores it under the same handle, and sets its \<open>updatedAt\<close> to the
  clock reading of the call, whatever the partial update holds (also when it holds an
  \<open>updatedAt\<close> of its own, or nothing). \<open>updatedAt\<close> is strictly later than before exactly
  when the clock reading is strictly later than the old \<open>updatedAt\<close>.
\<close>

theorem updateTodo_refreshes_updatedAt:
  assumes "getTodo s T = Some todo"
  shows "\<exists>updated. fst (updateTodo s T updates now) = Some updated
           \<and> getTodo (snd (updateTodo s T updates now)) T = Some updated
           \<and> todo_updatedAt updated = now
           \<and> (todo_updatedAt todo < todo_updatedAt updated \<longleftrightarrow> todo_updatedAt todo < now)"
  using assms by (simp add: getTodo_def updateTodo_def Let_def Map_get_Map_set)

theorem updateTodo_refreshes_updatedAt_witness:
  "getTodo scenario 1 \<noteq> None
   \<and> fst (updateTodo scenario 1 no_updates 2500) \<noteq> None
   \<and> map_option todo_updatedAt (fst (updateTodo scenario 1 no_updates 2500)) = Some 2500
   \<and> map_option todo_updatedAt (getTodo (snd (updateTodo scenario 1 no_updates 2500)) 1) = Some 2500"
proof -
  obtain todo where t: "getTodo scenario 1 = Some todo"
    by (simp add: scenario_value getTodo_def Map_get_def)
  from t updateTodo_refreshes_updatedAt[OF t, of no_updates 2500] show ?thesis by auto
qed

text \<open>
  Claim C6 as stated fails: an update does not always strictly increase \<open>updatedAt\<close>. The
  clock has millisecond resolution; the todo of the scenario was created at reading 2000, and
  an update at the same reading 2000 leaves \<open>updatedAt\<close> at 2000.
\<close>

theorem updateTodo_same_millisecond_counterexample:
  "map_option todo_updatedAt (getTodo scenario 1) = Some 2000
   \<and> map_option todo_updatedAt (fst (updateTodo scenario 1 no_updates 2000)) = Some 2000
   \<and> map_option todo_updatedAt (getTodo (snd (updateTodo scenario 1 no_updates 2000)) 1) = Some 2000"
  by (simp add: scenario_value getTodo_def updateTodo_def Let_def Map_get_def no_updates_def pick_def)

subsection \<open>updateBoard\<close>




text \<open>
  A key bound to \<open>undefined\<close> is a present key for the spread: the field becomes
  \<open>undefined\<close>. The board route builds such objects: for the request body
  \<open>{title: Plan B}\<close> it calls \<open>updateBoard\<close> with \<open>title_only\<close>, and the stored board loses
  its colour and its description, while creator and creation time stay.
\<close>

lemma updateBoard_key_bound_to_undefined:
  assumes "getBoard s B = Some board"
  shows "\<exists>updated. fst (updateBoard s B updates) = Some updated
           \<and> getBoard (snd (updateBoard s B updates)) B = Some updated
           \<and> (pb_id updates = Some Undef \<longrightarrow> board_id updated = Undef)
           \<and> (pb_title updates = Some Undef \<longrightarrow> board_title updated = Undef)
           \<and> (pb_description updates = Some Undef \<longrightarrow> board_description updated = Undef)
           \<and> (pb_color updates = Some Undef \<longrightarrow> board_color updated = Undef)
           \<and> (pb_createdBy updates = Some Undef \<longrightarrow> board_createdBy updated = Undef)
           \<and> (pb_createdAt updates = Some Undef \<longrightarrow> board_createdAt updated = Undef)"
  using assms by (simp add: getBoard_def updateBoard_def Let_def Map_get_Map_set pick_def)

lemma updateBoard_title_only:
  "getBoard scenario 1 =
     Some \<lparr> board_id = Def 1, board_title = Def ''Launch Plan'', board_description = Def None,
            board_color = Def ''primary'', board_createdBy = Def 1, board_createdAt = Def 1000 \<rparr>
   \<and> fst (updateBoard scenario 1 title_only) =
     Some \<lparr> board_id = Def 1, board_title = Def ''Plan B'', board_description = Undef,
            board_color = Undef, board_createdBy = Def 1, board_createdAt = Def 1000 \<rparr>
   \<and> getBoard (snd (updateBoard scenario 1 title_only)) 1 = fst (updateBoard scenario 1 title_only)"
  by (simp add: scenario_value getBoard_def updateBoard_def Let_def Map_get_def title_only_def
      pick_def)

subsection \<open>createUser\<close>

text \<open>
  Claim C8. In every reachable store, \<open>createUser\<close> returns an account whose handle is
  the account counter's value, a handle no stored account has, and stores the account
  under it. Login name, credential and phone number are the given ones. Display name and
  avatar are the given values when these are non-empty strings and absent when they are
  unset, null or the empty string: they are never stored as the empty string.
\<close>

theorem createUser_stores_given:
  assumes "reachable s"
  shows "user_id (fst (createUser s ins)) = currentUserId s
   \<and> getUser s (currentUserId s) = None
   \<and> getUser (snd (createUser s ins)) (currentUserId s) = Some (fst (createUser s ins))
   \<and> users (snd (createUser s ins)) = users s @ [(currentUserId s, fst (createUser s ins))]
   \<and> currentUserId (snd (createUser s ins)) = currentUserId s + 1
   \<and> user_username (fst (createUser s ins)) = iu_username ins
   \<and> user_password (fst (createUser s ins)) = iu_password ins
   \<and> user_phoneNumber (fst (createUser s ins)) = iu_phoneNumber ins
   \<and> user_displayName (fst (createUser s ins))
        = (case iu_displayName ins of Val v \<Rightarrow> (if v = [] then None else Some v) | _ \<Rightarrow> None)
   \<and> user_photoURL (fst (createUser s ins))
        = (case iu_photoURL ins of Val v \<Rightarrow> (if v = [] then None else Some v) | _ \<Rightarrow> None)
   \<and> user_displayName (fst (createUser s ins)) \<noteq> Some []
   \<and> user_photoURL (fst (createUser s ins)) \<noteq> Some []
   \<and> boards (snd (createUser s ins)) = boards s
   \<and> boardMembers (snd (createUser s ins)) = boardMembers s
   \<and> todos (snd (createUser s ins)) = todos s"
proof -
  from assms have "store_inv s" by (rule reachable_store_inv)
  then have fresh: "currentUserId s \<notin> set (map fst (users s))"
    by (intro keys_below_fresh) (simp add: store_inv_def)
  then have absent: "getUser s (currentUserId s) = None"
    by (simp add: getUser_def Map_get_None_iff Map_has_def)
  have opt: "string_or_null x \<noteq> Some []" for x
    by (simp add: string_or_null_def split: optional.splits)
  have get: "getUser (snd (createUser s ins)) (currentUserId s) = Some (fst (createUser s ins))"
    by (simp add: createUser_def Let_def getUser_def Map_get_Map_set)
  have app: "users (snd (createUser s ins)) = users s @ [(currentUserId s, fst (createUser s ins))]"
    using Map_set_new[OF fresh] by (simp add: createUser_def Let_def)
  have fields: "user_id (fst (createUser s ins)) = currentUserId s
     \<and> currentUserId (snd (createUser s ins)) = currentUserId s + 1
     \<and> user_username (fst (createUser s ins)) = iu_username ins
     \<and> user_password (fst (createUser s ins)) = iu_password ins
     \<and> user_phoneNumber (fst (createUser s ins)) = iu_phoneNumber ins
     \<and> user_displayName (fst (createUser s ins)) = string_or_null (iu_displayName ins)
     \<and> user_photoURL (fst (createUser s ins)) = string_or_null (iu_photoURL ins)
     \<and> boards (snd (createUser s ins)) = boards s
     \<and> boardMembers (snd (createUser s ins)) = boardMembers s
     \<and> todos (snd (createUser s ins)) = todos s"
    by (simp add: createUser_def Let_def)
  have unfold: "string_or_null x
      = (case x of Val v \<Rightarrow> (if v = [] then None else Some v) | _ \<Rightarrow> None)" for x
    by (simp add: string_or_null_def)
  from absent get app fields opt show ?thesis
    by (simp add: unfold[symmetric])
qed

theorem createUser_stores_given_witness:
  "reachable scenario
   \<and> user_id (fst (createUser scenario (alice\<lparr>iu_displayName := Val [], iu_photoURL := Val ''a.png''\<rparr>))) = 2
   \<and> getUser scenario 2 = None
   \<and> user_displayName (fst (createUser scenario
        (alice\<lparr>iu_displayName := Val [], iu_photoURL := Val ''a.png''\<rparr>))) = None
   \<and> user_photoURL (fst (createUser scenario
        (alice\<lparr>iu_displayName := Val [], iu_photoURL := Val ''a.png''\<rparr>))) = Some ''a.png''
   \<and> user_username (fst (createUser scenario
        (alice\<lparr>iu_displayName := Val [], iu_photoURL := Val ''a.png''\<rparr>))) = ''alice''"
proof -
  have c: "currentUserId scenario = 2" by (simp add: scenario_value)
  from c reachable_scenario
    createUser_stores_given[OF reachable_scenario,
      of "alice\<lparr>iu_displayName := Val [], iu_photoURL := Val ''a.png''\<rparr>"]
  show ?thesis by (simp add: alice_def)
qed


subsection \<open>Not found\<close>

lemma removeBoardMember_loop_found:
  "fst (removeBoardMember_loop es b u m)
     \<longleftrightarrow> (\<exists>e \<in> set es. member_boardId (snd e) = b \<and> member_userId (snd e) = u)"
  by (induction es b u m rule: removeBoardMember_loop.induct) auto

lemma removeBoardMember_loop_not_found:
  "\<not> fst (removeBoardMember_loop es b u m) \<Longrightarrow> snd (removeBoardMember_loop es b u m) = m"
  by (induction es b u m rule: removeBoardMember_loop.induct) (auto split: if_splits)

lemma updateBoardMemberRole_loop_found:
  "fst (updateBoardMemberRole_loop es b u r m) \<noteq> None
     \<longleftrightarrow> (\<exists>e \<in> set es. member_boardId (snd e) = b \<and> member_userId (snd e) = u)"
  by (induction es b u r m rule: updateBoardMemberRole_loop.induct) (auto simp: Let_def)

lemma updateBoardMemberRole_loop_not_found:
  "fst (updateBoardMemberRole_loop es b u r m) = None
     \<Longrightarrow> snd (updateBoardMemberRole_loop es b u r m) = m"
  by (induction es b u r m rule: updateBoardMemberRole_loop.induct)
    (auto simp: Let_def split: if_splits)

lemma memberships_of_empty:
  "memberships_of s b u = []
     \<longleftrightarrow> \<not> (\<exists>e \<in> set (boardMembers s). member_boardId (snd e) = b \<and> member_userId (snd e) = u)"
  by (auto simp: memberships_of_def Map_values_def filter_empty_conv)

lemma removeBoardMember_sentinel:
  "(\<not> fst (removeBoardMember s b u) \<longleftrightarrow> memberships_of s b u = [])
   \<and> (memberships_of s b u = [] \<longrightarrow> snd (removeBoardMember s b u) = s)"
  using removeBoardMember_loop_found[of "boardMembers s" b u "boardMembers s"]
    removeBoardMember_loop_not_found[of "boardMembers s" b u "boardMembers s"]
  by (simp add: removeBoardMember_def Map_entries_def split_beta memberships_of_empty)

lemma updateBoardMemberRole_sentinel:
  "(fst (updateBoardMemberRole s b u r) = None \<longleftrightarrow> memberships_of s b u = [])
   \<and> (memberships_of s b u = [] \<longrightarrow> snd (updateBoardMemberRole s b u r) = s)"
  using updateBoardMemberRole_loop_found[of "boardMembers s" b u r "boardMembers s"]
    updateBoardMemberRole_loop_not_found[of "boardMembers s" b u r "boardMembers s"]
  by (auto simp: updateBoardMemberRole_def Map_entries_def split_beta memberships_of_empty)

lemma updateBoard_sentinel:
  "(fst (updateBoard s i ub) = None \<longleftrightarrow> getBoard s i = None)
   \<and> (getBoard s i = None \<longrightarrow> snd (updateBoard s i ub) = s)"
  by (simp add: updateBoard_def getBoard_def Let_def split: option.splits)

lemma updateTodo_sentinel:
  "(fst (updateTodo s i ut now) = None \<longleftrightarrow> getTodo s i = None)
   \<and> (getTodo s i = None \<longrightarrow> snd (updateTodo s i ut now) = s)"
  by (simp add: updateTodo_def getTodo_def Let_def split: option.splits)

lemma deleteTodo_sentinel:
  "(\<not> fst (deleteTodo s i) \<longleftrightarrow> getTodo s i = None)
   \<and> (getTodo s i = None \<longrightarrow> snd (deleteTodo s i) = s)"
  by (simp add: deleteTodo_def getTodo_def Map_get_None_iff Map_delete_absent)

lemma deleteBoard_sentinel:
  "(\<not> fst (deleteBoard s i) \<longleftrightarrow> getBoard s i = None)
   \<and> (getBoard s i = None \<longrightarrow> snd (deleteBoard s i) = s)"
proof (cases "getBoard s i")
  case None
  then show ?thesis by (simp add: deleteBoard_absent)
next
  case (Some board)
  then show ?thesis using deleteBoard_present_fst[of s i] by simp
qed

text \<open>
  Claim C9. The source has no \<open>throw\<close>, and the model has no error result: each operation
  is a total function of the store and its arguments, and the two lookups behind a
  non-null assertion are only spread or listed, never dereferenced. What is left to prove is
  that not-found is signalled by the sentinel and by nothing else: each lookup, update and
  delete returns absent or false exactly when its target is not in the store, and then it
  leaves the store as it was.
\<close>

theorem not_found_is_a_sentinel:
  "(getUser s i = None \<longleftrightarrow> \<not> Map_has (users s) i)
   \<and> (getBoard s i = None \<longleftrightarrow> \<not> Map_has (boards s) i)
   \<and> (getTodo s i = None \<longleftrightarrow> \<not> Map_has (todos s) i)
   \<and> (getUserByUsername s name = None
        \<longleftrightarrow> \<not> (\<exists>user \<in> set (Map_values (users s)). user_username user = name))
   \<and> (getUserByPhoneNumber s phone = None
        \<longleftrightarrow> \<not> (\<exists>user \<in> set (Map_values (users s)). user_phoneNumber user = phone))
   \<and> (getBoardWithMembers s i = None \<longleftrightarrow> getBoard s i = None)
   \<and> (fst (updateBoard s i ub) = None \<longleftrightarrow> getBoard s i = None)
   \<and> (getBoard s i = None \<longrightarrow> snd (updateBoard s i ub) = s)
   \<and> (\<not> fst (deleteBoard s i) \<longleftrightarrow> getBoard s i = None)
   \<and> (getBoard s i = None \<longrightarrow> snd (deleteBoard s i) = s)
   \<and> (\<not> fst (removeBoardMember s b u) \<longleftrightarrow> memberships_of s b u = [])
   \<and> (memberships_of s b u = [] \<longrightarrow> snd (removeBoardMember s b u) = s)
   \<and> (fst (updateBoardMemberRole s b u r) = None \<longleftrightarrow> memberships_of s b u = [])
   \<and> (memberships_of s b u = [] \<longrightarrow> snd (updateBoardMemberRole s b u r) = s)
   \<and> (fst (updateTodo s i ut now) = None \<longleftrightarrow> getTodo s i = None)
   \<and> (getTodo s i = None \<longrightarrow> snd (updateTodo s i ut now) = s)
   \<and> (\<not> fst (deleteTodo s i) \<longleftrightarrow> getTodo s i = None)
   \<and> (getTodo s i = None \<longrightarrow> snd (deleteTodo s i) = s)"
proof -
  have gets: "(getUser s i = None \<longleftrightarrow> \<not> Map_has (users s) i)
      \<and> (getBoard s i = None \<longleftrightarrow> \<not> Map_has (boards s) i)
      \<and> (getTodo s i = None \<longleftrightarrow> \<not> Map_has (todos s) i)"
    by (simp add: getUser_def getBoard_def getTodo_def Map_get_None_iff)
  have finds: "(getUserByUsername s name = None
        \<longleftrightarrow> \<not> (\<exists>user \<in> set (Map_values (users s)). user_username user = name))
      \<and> (getUserByPhoneNumber s phone = None
        \<longleftrightarrow> \<not> (\<exists>user \<in> set (Map_values (users s)). user_phoneNumber user = phone))"
    by (auto simp: getUserByUsername_def getUserByPhoneNumber_def find_None_iff)
  have bwm: "getBoardWithMembers s i = None \<longleftrightarrow> getBoard s i = None"
    by (simp add: getBoardWithMembers_def getBoard_def Let_def split: option.splits)
  from gets finds bwm updateBoard_sentinel[of s i ub] deleteBoard_sentinel[of s i]
    removeBoardMember_sentinel[of s b u] updateBoardMemberRole_sentinel[of s b u r]
    updateTodo_sentinel[of s i ut now] deleteTodo_sentinel[of s i]
  show ?thesis by blast
qed

theorem not_found_is_a_sentinel_witness:
  "getBoard scenario 9 = None \<and> getTodo scenario 9 = None \<and> memberships_of scenario 9 1 = []
   \<and> fst (updateBoard scenario 9 no_board_updates) = None
   \<and> snd (updateBoard scenario 9 no_board_updates) = scenario
   \<and> \<not> fst (deleteBoard scenario 9) \<and> snd (deleteBoard scenario 9) = scenario
   \<and> \<not> fst (removeBoardMember scenario 9 1) \<and> snd (removeBoardMember scenario 9 1) = scenario
   \<and> fst (updateBoardMemberRole scenario 9 1 ''viewer'') = None
   \<and> snd (updateBoardMemberRole scenario 9 1 ''viewer'') = scenario
   \<and> fst (updateTodo scenario 9 no_updates 5000) = None
   \<and> snd (updateTodo scenario 9 no_updates 5000) = scenario
   \<and> \<not> fst (deleteTodo scenario 9) \<and> snd (deleteTodo scenario 9) = scenario
   \<and> getBoard scenario 1 \<noteq> None \<and> fst (deleteBoard scenario 1)"
proof -
  have a: "getBoard scenario 9 = None" "getTodo scenario 9 = None"
    "memberships_of scenario 9 1 = []" "getBoard scenario 1 \<noteq> None"
    by (simp_all add: scenario_value getBoard_def getTodo_def Map_get_def memberships_of_def
        Map_values_def)
  have n9: "fst (updateBoard scenario 9 no_board_updates) = None
      \<and> snd (updateBoard scenario 9 no_board_updates) = scenario
      \<and> \<not> fst (deleteBoard scenario 9) \<and> snd (deleteBoard scenario 9) = scenario
      \<and> \<not> fst (removeBoardMember scenario 9 1) \<and> snd (removeBoardMember scenario 9 1) = scenario
      \<and> fst (updateBoardMemberRole scenario 9 1 ''viewer'') = None
      \<and> snd (updateBoardMemberRole scenario 9 1 ''viewer'') = scenario
      \<and> fst (updateTodo scenario 9 no_updates 5000) = None
      \<and> snd (updateTodo scenario 9 no_updates 5000) = scenario
      \<and> \<not> fst (deleteTodo scenario 9) \<and> snd (deleteTodo scenario 9) = scenario"
    using a(1,2,3)
      not_found_is_a_sentinel[of scenario 9 "''alice''" "''+15550001''" no_board_updates 9 1
        "''viewer''" no_updates 5000]
    by (elim conjE) (intro conjI; simp)
  have "\<not> fst (deleteBoard scenario 1) \<longleftrightarrow> getBoard scenario 1 = None"
    using not_found_is_a_sentinel[of scenario 1 "''alice''" "''+15550001''" no_board_updates 9 1
        "''viewer''" no_updates 5000]
    by (elim conjE) assumption
  with a(4) have n1: "fst (deleteBoard scenario 1)" by auto
  from a n9 n1 show ?thesis by (elim conjE) (intro conjI; assumption)
qed

subsection \<open>getBoardsByUser\<close>

lemma fold_Set_add_set:
  "set (fold (\<lambda>x ids. Set_add ids (f x)) xs acc) = set acc \<union> f ` set xs"
  by (induction xs arbitrary: acc) (auto simp: Set_add_def)

lemma fold_Set_add_distinct:
  "distinct acc \<Longrightarrow> distinct (fold (\<lambda>x ids. Set_add ids (f x)) xs acc)"
  by (induction xs arbitrary: acc) (auto simp: Set_add_def)

text \<open>
  The handles \<open>getBoardsByUser\<close> collects: each once, and exactly the \<open>id\<close> of every board
  the user created together with the \<open>boardId\<close> of every membership of the user.
\<close>

lemma getBoardsByUser_boardIds_union:
  "distinct (getBoardsByUser_boardIds s A)
   \<and> set (getBoardsByUser_boardIds s A)
       = board_id ` {board \<in> set (Map_values (boards s)). board_createdBy board = Def A}
         \<union> (\<lambda>member. Def (member_boardId member))
             ` {member \<in> set (Map_values (boardMembers s)). member_userId member = A}"
  by (simp add: getBoardsByUser_boardIds_def Let_def fold_Set_add_set fold_Set_add_distinct)

text \<open>One result per collected handle, with the counts of that handle.\<close>

lemma getBoardsByUser_counts:
  "length (getBoardsByUser s A) = length (getBoardsByUser_boardIds s A)
   \<and> (\<forall>n < length (getBoardsByUser s A).
         bwc_board (getBoardsByUser s A ! n)
           = (case getBoardsByUser_boardIds s A ! n of Undef \<Rightarrow> None | Def i \<Rightarrow> getBoard s i)
         \<and> bwc_todoCount (getBoardsByUser s A ! n) = todoCount s (getBoardsByUser_boardIds s A ! n)
         \<and> bwc_memberCount (getBoardsByUser s A ! n)
             = memberCount s (getBoardsByUser_boardIds s A ! n))"
  by (auto simp: getBoardsByUser_def getBoard_def split: or_undefined.splits)

text \<open>
  Where every membership of the user is on a stored board and every board is stored under
  its own \<open>id\<close>, each result carries a board.
\<close>

lemma getBoardsByUser_boards_exist:
  assumes members: "\<And>member. member \<in> set (Map_values (boardMembers s)) \<Longrightarrow>
              member_userId member = A \<Longrightarrow> Map_has (boards s) (member_boardId member)"
    and ids: "\<And>e. e \<in> set (boards s) \<Longrightarrow> board_id (snd e) = Def (fst e)"
    and r: "r \<in> set (getBoardsByUser s A)"
  shows "bwc_board r \<noteq> None"
proof -
  from r obtain k where k: "k \<in> set (getBoardsByUser_boardIds s A)"
    and rk: "bwc_board r = (case k of Undef \<Rightarrow> None | Def i \<Rightarrow> Map_get (boards s) i)"
    by (auto simp: getBoardsByUser_def)
  from k getBoardsByUser_boardIds_union[of s A]
  consider board where "board \<in> set (Map_values (boards s))" "k = board_id board"
    | member where "member \<in> set (Map_values (boardMembers s))" "member_userId member = A"
        "k = Def (member_boardId member)"
    by auto
  then obtain i where "k = Def i" "Map_has (boards s) i"
  proof cases
    case 1
    then obtain e where "e \<in> set (boards s)" "board = snd e"
      by (auto simp: Map_values_def)
    with 1 ids[of e] have "k = Def (fst e)" "Map_has (boards s) (fst e)"
      by (auto simp: Map_has_def)
    with that show ?thesis by blast
  next
    case 2
    with members that show ?thesis by blast
  qed
  with rk show ?thesis by (simp add: Map_get_None_iff)
qed

text \<open>
  Claim C5 fails on the code. The store \<open>dangling_member\<close> is reached by
  \<open>addBoardMember {boardId: 7, userId: 1}\<close> on a new store: it holds no board. The claim
  gives the empty list for account 1, the union of no boards. The code returns one element,
  for handle 7, which has no board fields at all and a member count of 1.
\<close>

theorem getBoardsByUser_dangling_membership:
  "reachable dangling_member
   \<and> boards dangling_member = []
   \<and> getBoardsByUser dangling_member 1
       = [\<lparr> bwc_board = None, bwc_todoCount = 0, bwc_memberCount = 1 \<rparr>]"
proof -
  have r: "reachable dangling_member"
    unfolding dangling_member_def by (rule reachable.call) (rule reachable.new)
  have v: "dangling_member =
     \<lparr> users = [], boards = [],
       boardMembers = [(1, \<lparr> member_id = 1, member_boardId = 7, member_userId = 1,
                             member_role = ''editor'' \<rparr>)],
       todos = [],
       currentUserId = 1, currentBoardId = 1, currentBoardMemberId = 2, currentTodoId = 1 \<rparr>"
    by (simp add: dangling_member_def addBoardMember_def MemStorage_new_def Let_def string_or_def
        Map_values_def)
  from r show ?thesis
    by (simp add: v getBoardsByUser_def getBoardsByUser_boardIds_def Set_add_def todoCount_def
        memberCount_def Map_values_def Map_get_def)
qed

end
